theory Spec2Isabelle
  imports Main
begin

section \<open>The ledger store\<close>

text \<open>
  The credit engine (\<^verbatim>\<open>utils/credits.ts\<close>) talks to a relational store through a
  query client whose every call answers with a pair \<^verbatim>\<open>{ data, error }\<close>. The tables
  the engine writes (\<^verbatim>\<open>user_credits\<close>, \<^verbatim>\<open>credit_transactions\<close>, \<^verbatim>\<open>stripe_events\<close>)
  form the state \<open>db\<close>; what the engine only reads (the clock, the cost catalog, the
  subscription records, the plan catalog and whether a table can be reached at all) forms
  the environment \<open>env\<close> of one call.

  Numbers are JavaScript numbers holding integers: \<open>int\<close>. Timestamps are milliseconds
  since the epoch: writing an ISO string and parsing it back is the identity.
\<close>

type_synonym user_id = string
type_synonym timestamp = int

datatype table =
  User_credits | Credit_transactions | App_subscriptions | App_credit_config | Stripe_events

text \<open>\<^verbatim>\<open>new HttpError(status, message, details)\<close>.\<close>

datatype details = No_details | Message string | Shortfall (required: int) (available: int)

datatype http_error = HttpError nat string details

datatype pool = Subscription | Topup | Trial

datatype txn_type =
  Usage_deduction | Subscription_allocation | Topup_purchase | Retention_bonus
  | Trial_allocation | Trial_expiry | Trial_merge | Trial_merge_overflow

record user_credits_row =
  subscription_balance :: int
  topup_balance :: int
  trial_balance :: "int option"
  trial_expires_at :: "timestamp option"
  subscription_cap :: int
  lifetime_earned :: int
  lifetime_spent :: int
  last_allocated :: "timestamp option"
  updated_at :: "timestamp option"

text \<open>
  A row of \<^verbatim>\<open>credit_transactions\<close>. The store generates the id of an inserted row;
  here it is the number of rows the log held before the insert.
\<close>

record credit_transaction =
  txn_id :: nat
  user_id :: user_id
  amount :: int
  balance_after :: int
  pool :: pool
  txn_type :: txn_type
  description :: string
  app_key :: "string option"
  reference_id :: "string option"

record stripe_event_row =
  event_type :: string
  payload :: "string option"

record db =
  user_credits :: "user_id \<rightharpoonup> user_credits_row"
  credit_transactions :: "credit_transaction list"
  stripe_events :: "string \<rightharpoonup> stripe_event_row"

record plan =
  monthlyCredits :: int
  creditCap :: int

record app_subscription =
  sub_user_id :: user_id
  sub_app_key :: string
  stripe_price_id :: "string option"
  status :: string

record credit_config =
  credit_cost :: int
  is_active :: bool

text \<open>
  The environment of a call. \<open>failing t = Some msg\<close> says that table \<open>t\<close> cannot be
  reached: a read of it answers \<^verbatim>\<open>{ data: null, error: msg }\<close> and a write to it is
  lost. \<open>findSubscriptionByPriceId\<close> and \<open>findSubscriptionPlan\<close> are the two lookups of
  \<^verbatim>\<open>config/plans\<close>, taken as parameters.
\<close>

record env =
  now :: timestamp
  failing :: "table \<Rightarrow> string option"
  app_credit_config :: "string \<times> string \<rightharpoonup> credit_config"
  app_subscriptions :: "app_subscription list"
  findSubscriptionByPriceId :: "string \<Rightarrow> plan option"
  findSubscriptionPlan :: "string \<Rightarrow> plan option"

record 'a response =
  data :: "'a option"
  error :: "string option"

text \<open>The outcome of an engine call: what it returns or throws, and the store it leaves.\<close>

type_synonym 'a outcome = "(http_error + 'a) \<times> db"

subsection \<open>Queries\<close>

text \<open>\<^verbatim>\<open>from("user_credits").select(...).eq("user_id", userId).maybeSingle()\<close>\<close>

definition select_user_credits :: "env \<Rightarrow> db \<Rightarrow> user_id \<Rightarrow> user_credits_row response" where
  "select_user_credits e s userId =
     (case failing e User_credits of
        Some msg \<Rightarrow> \<lparr>data = None, error = Some msg\<rparr>
      | None \<Rightarrow> \<lparr>data = user_credits s userId, error = None\<rparr>)"

text \<open>
  \<^verbatim>\<open>from("user_credits").update({...}).eq("user_id", userId)\<close>: the fields are set on
  the user's row; with no such row nothing is written.
\<close>

definition update_user_credits ::
  "env \<Rightarrow> user_id \<Rightarrow> (user_credits_row \<Rightarrow> user_credits_row) \<Rightarrow> db \<Rightarrow> db" where
  "update_user_credits e userId f s =
     (case failing e User_credits of
        Some msg \<Rightarrow> s
      | None \<Rightarrow>
          (case user_credits s userId of
             None \<Rightarrow> s
           | Some r \<Rightarrow> s\<lparr>user_credits := (user_credits s)(userId \<mapsto> f r)\<rparr>))"

text \<open>
  Modelled from the spec: the column defaults of \<^verbatim>\<open>user_credits\<close> (the schema is not
  part of the sources). A new account is zeroed, with the platform's default cap 900.
\<close>

definition default_row :: user_credits_row where
  "default_row =
     \<lparr>subscription_balance = 0, topup_balance = 0, trial_balance = Some 0,
      trial_expires_at = None, subscription_cap = 900, lifetime_earned = 0,
      lifetime_spent = 0, last_allocated = None, updated_at = None\<rparr>"

text \<open>\<^verbatim>\<open>from("user_credits").insert({ user_id: userId })\<close>; the user id is the key.\<close>

definition insert_user_credits :: "env \<Rightarrow> user_id \<Rightarrow> db \<Rightarrow> db" where
  "insert_user_credits e userId s =
     (case failing e User_credits of
        Some msg \<Rightarrow> s
      | None \<Rightarrow>
          (case user_credits s userId of
             Some r \<Rightarrow> s
           | None \<Rightarrow> s\<lparr>user_credits := (user_credits s)(userId \<mapsto> default_row)\<rparr>))"

text \<open>
  \<^verbatim>\<open>from("credit_transactions").insert({...})\<close>, answering the inserted row (what
  \<^verbatim>\<open>.select("id").single()\<close> reads the id from), or nothing when the insert is lost.
\<close>

definition insert_transaction ::
  "env \<Rightarrow> user_id \<Rightarrow> int \<Rightarrow> int \<Rightarrow> pool \<Rightarrow> txn_type \<Rightarrow> string \<Rightarrow> string option \<Rightarrow> string option
     \<Rightarrow> db \<Rightarrow> credit_transaction option \<times> db" where
  "insert_transaction e userId amt after p ty descr app ref s =
     (case failing e Credit_transactions of
        Some msg \<Rightarrow> (None, s)
      | None \<Rightarrow>
          (let txn = \<lparr>txn_id = length (credit_transactions s), user_id = userId, amount = amt,
                      balance_after = after, pool = p, txn_type = ty, description = descr,
                      app_key = app, reference_id = ref\<rparr>
           in (Some txn, s\<lparr>credit_transactions := credit_transactions s @ [txn]\<rparr>)))"

section \<open>Balance\<close>

record CreditBalance =
  subscriptionBalance :: int
  topupBalance :: int
  trialBalance :: int
  total :: int
  cap :: int
  lifetimeEarned :: int
  lifetimeSpent :: int

text \<open>
  The trial balance \<open>getBalance\<close> reports for a row: 0 once \<open>trial_expires_at\<close> lies
  strictly before the clock, else the stored value (\<^verbatim>\<open>data.trial_balance ?? 0\<close>).
\<close>

definition effective_trial :: "timestamp \<Rightarrow> user_credits_row \<Rightarrow> int" where
  "effective_trial t r =
     (case trial_expires_at r of
        Some ex \<Rightarrow> (if ex < t then 0 else (case trial_balance r of None \<Rightarrow> 0 | Some b \<Rightarrow> b))
      | None \<Rightarrow> (case trial_balance r of None \<Rightarrow> 0 | Some b \<Rightarrow> b))"

definition getBalance :: "env \<Rightarrow> user_id \<Rightarrow> db \<Rightarrow> CreditBalance outcome" where
  "getBalance e userId s =
     (let res = select_user_credits e s userId in
      case error res of
        Some msg \<Rightarrow> (Inl (HttpError 500 ''Failed to fetch credit balance'' (Message msg)), s)
      | None \<Rightarrow>
          (case data res of
             None \<Rightarrow>
               (Inr \<lparr>subscriptionBalance = 0, topupBalance = 0, trialBalance = 0, total = 0,
                     cap = 900, lifetimeEarned = 0, lifetimeSpent = 0\<rparr>, s)
           | Some r \<Rightarrow>
               (let trialBalance = effective_trial (now e) r in
                (Inr \<lparr>subscriptionBalance = subscription_balance r,
                      topupBalance = topup_balance r,
                      trialBalance = trialBalance,
                      total = subscription_balance r + topup_balance r + trialBalance,
                      cap = subscription_cap r,
                      lifetimeEarned = lifetime_earned r,
                      lifetimeSpent = lifetime_spent r\<rparr>, s))))"

section \<open>Credit cost lookup\<close>

text \<open>
  \<^verbatim>\<open>app_credit_config\<close> is keyed by app and operation; only an active entry is found.
\<close>

definition getCreditCost :: "env \<Rightarrow> string \<Rightarrow> string \<Rightarrow> http_error + int" where
  "getCreditCost e appKey operation =
     (case failing e App_credit_config of
        Some msg \<Rightarrow> Inl (HttpError 500 ''Failed to fetch credit cost'' (Message msg))
      | None \<Rightarrow>
          (case app_credit_config e (appKey, operation) of
             None \<Rightarrow> Inl (HttpError 404 (''Unknown operation: '' @ appKey @ ''/'' @ operation) No_details)
           | Some c \<Rightarrow>
               (if is_active c then Inr (credit_cost c)
                else Inl (HttpError 404 (''Unknown operation: '' @ appKey @ ''/'' @ operation) No_details))))"

section \<open>Deductions\<close>

record DeductResult =
  newBalance :: int
  transactionId :: "nat option"

text \<open>
  One of the three logging blocks of \<open>deductCredits\<close>: when the pool's share is positive
  a row is inserted and \<open>lastTransactionId\<close> becomes its id (\<^verbatim>\<open>txn?.id ?? ""\<close>; the
  empty string is \<open>None\<close>); otherwise nothing happens.
\<close>

definition log_deduction ::
  "env \<Rightarrow> user_id \<Rightarrow> string \<Rightarrow> string \<Rightarrow> string option \<Rightarrow> pool \<Rightarrow> int \<Rightarrow> int
     \<Rightarrow> nat option \<times> db \<Rightarrow> nat option \<times> db" where
  "log_deduction e userId appKey operation referenceId p deducted after st =
     (if deducted > 0 then
        (let (txn, s') =
               insert_transaction e userId (- deducted) after p Usage_deduction
                 (operation @ '' ('' @ appKey @ '')'') (Some appKey) referenceId (snd st)
         in (map_option txn_id txn, s'))
      else st)"

definition deductCredits ::
  "env \<Rightarrow> user_id \<Rightarrow> string \<Rightarrow> string \<Rightarrow> string option \<Rightarrow> db \<Rightarrow> DeductResult outcome" where
  "deductCredits e userId appKey operation referenceId s =
     (case getCreditCost e appKey operation of
        Inl err \<Rightarrow> (Inl err, s)
      | Inr cost \<Rightarrow>
          (case getBalance e userId s of
             (Inl err, s0) \<Rightarrow> (Inl err, s0)
           | (Inr balance, s0) \<Rightarrow>
               (if total balance < cost then
                  (Inl (HttpError 402 ''Insufficient credits'' (Shortfall cost (total balance))), s0)
                else
                  (let deductFromTrial = min cost (trialBalance balance);
                       remainingAfterTrial = cost - deductFromTrial;
                       deductFromTopup = min remainingAfterTrial (topupBalance balance);
                       deductFromSub = remainingAfterTrial - deductFromTopup;
                       newTrial = trialBalance balance - deductFromTrial;
                       newTopup = topupBalance balance - deductFromTopup;
                       newSub = subscriptionBalance balance - deductFromSub;
                       newBalance = total balance - cost;
                       s1 = update_user_credits e userId
                              (\<lambda>r. r\<lparr>trial_balance := Some newTrial,
                                      topup_balance := newTopup,
                                      subscription_balance := newSub,
                                      lifetime_spent := lifetimeSpent balance + cost,
                                      updated_at := Some (now e)\<rparr>) s0;
                       st1 = log_deduction e userId appKey operation referenceId Trial
                               deductFromTrial (total balance - deductFromTrial) (None, s1);
                       st2 = log_deduction e userId appKey operation referenceId Topup
                               deductFromTopup (total balance - deductFromTrial - deductFromTopup) st1;
                       st3 = log_deduction e userId appKey operation referenceId Subscription
                               deductFromSub newBalance st2
                   in (Inr \<lparr>newBalance = newBalance, transactionId = fst st3\<rparr>, snd st3)))))"

section \<open>Allocations\<close>

text \<open>
  \<^verbatim>\<open>AllocateResult = { newBalance, allocated }\<close>; the first field is \<open>alloc_newBalance\<close>
  here, \<open>newBalance\<close> being the field of \<open>DeductResult\<close>.
\<close>

record AllocateResult =
  alloc_newBalance :: int
  allocated :: int

definition ensureUserCreditsRow :: "env \<Rightarrow> user_id \<Rightarrow> db \<Rightarrow> db" where
  "ensureUserCreditsRow e userId s =
     (case data (select_user_credits e s userId) of
        None \<Rightarrow> insert_user_credits e userId s
      | Some r \<Rightarrow> s)"

definition allocateSubscriptionCredits ::
  "env \<Rightarrow> user_id \<Rightarrow> int \<Rightarrow> string \<Rightarrow> string option \<Rightarrow> db \<Rightarrow> AllocateResult outcome" where
  "allocateSubscriptionCredits e userId amt appKey referenceId s =
     (let s0 = ensureUserCreditsRow e userId s in
      case getBalance e userId s0 of
        (Inl err, s1) \<Rightarrow> (Inl err, s1)
      | (Inr balance, s1) \<Rightarrow>
          (let headroom = max 0 (cap balance - subscriptionBalance balance);
               allocated = min amt headroom
           in if allocated = 0 then
                (Inr \<lparr>alloc_newBalance = total balance, allocated = 0\<rparr>, s1)
              else
                (let newSubBalance = subscriptionBalance balance + allocated;
                     newTotal = total balance + allocated;
                     s2 = update_user_credits e userId
                            (\<lambda>r. r\<lparr>subscription_balance := newSubBalance,
                                    lifetime_earned := lifetimeEarned balance + allocated,
                                    last_allocated := Some (now e),
                                    updated_at := Some (now e)\<rparr>) s1;
                     (txn, s3) = insert_transaction e userId allocated newTotal Subscription
                                   Subscription_allocation (''Monthly allocation ('' @ appKey @ '')'')
                                   (Some appKey) referenceId s2
                 in (Inr \<lparr>alloc_newBalance = newTotal, allocated = allocated\<rparr>, s3))))"

definition allocateTopUpCredits ::
  "env \<Rightarrow> user_id \<Rightarrow> int \<Rightarrow> string \<Rightarrow> string option \<Rightarrow> db \<Rightarrow> AllocateResult outcome" where
  "allocateTopUpCredits e userId amt packName referenceId s =
     (let s0 = ensureUserCreditsRow e userId s in
      case getBalance e userId s0 of
        (Inl err, s1) \<Rightarrow> (Inl err, s1)
      | (Inr balance, s1) \<Rightarrow>
          (let newTopup = topupBalance balance + amt;
               newTotal = total balance + amt;
               s2 = update_user_credits e userId
                      (\<lambda>r. r\<lparr>topup_balance := newTopup,
                              lifetime_earned := lifetimeEarned balance + amt,
                              updated_at := Some (now e)\<rparr>) s1;
               (txn, s3) = insert_transaction e userId amt newTotal Topup Topup_purchase
                             (packName @ '' top-up'') None referenceId s2
           in (Inr \<lparr>alloc_newBalance = newTotal, allocated = amt\<rparr>, s3)))"

definition allocateRetentionBonus :: "env \<Rightarrow> user_id \<Rightarrow> int \<Rightarrow> db \<Rightarrow> AllocateResult outcome" where
  "allocateRetentionBonus e userId amt s =
     (let s0 = ensureUserCreditsRow e userId s in
      case getBalance e userId s0 of
        (Inl err, s1) \<Rightarrow> (Inl err, s1)
      | (Inr balance, s1) \<Rightarrow>
          (let newTopup = topupBalance balance + amt;
               newTotal = total balance + amt;
               s2 = update_user_credits e userId
                      (\<lambda>r. r\<lparr>topup_balance := newTopup,
                              lifetime_earned := lifetimeEarned balance + amt,
                              updated_at := Some (now e)\<rparr>) s1;
               (txn, s3) = insert_transaction e userId amt newTotal Topup Retention_bonus
                             ''Retention offer bonus credits'' None None s2
           in (Inr \<lparr>alloc_newBalance = newTotal, allocated = amt\<rparr>, s3)))"

section \<open>Trial credit operations\<close>

definition allocateTrialCredits ::
  "env \<Rightarrow> user_id \<Rightarrow> int \<Rightarrow> string \<Rightarrow> timestamp \<Rightarrow> string option \<Rightarrow> db \<Rightarrow> AllocateResult outcome" where
  "allocateTrialCredits e userId amt appKey trialEndsAt referenceId s =
     (let s0 = ensureUserCreditsRow e userId s in
      case getBalance e userId s0 of
        (Inl err, s1) \<Rightarrow> (Inl err, s1)
      | (Inr balance, s1) \<Rightarrow>
          (let s2 = update_user_credits e userId
                      (\<lambda>r. r\<lparr>trial_balance := Some amt,
                              trial_expires_at := Some trialEndsAt,
                              lifetime_earned := lifetimeEarned balance + amt,
                              updated_at := Some (now e)\<rparr>) s1;
               (txn, s3) = insert_transaction e userId amt (total balance + amt) Trial Trial_allocation
                             (''Trial credits ('' @ appKey @ '')'') (Some appKey) referenceId s2
           in (Inr \<lparr>alloc_newBalance = total balance + amt, allocated = amt\<rparr>, s3)))"

text \<open>\<^verbatim>\<open>data?.trial_balance ?? 0\<close> on the answer of a select.\<close>

definition stored_trial :: "user_credits_row option \<Rightarrow> int" where
  "stored_trial d =
     (case d of None \<Rightarrow> 0 | Some r \<Rightarrow> (case trial_balance r of None \<Rightarrow> 0 | Some b \<Rightarrow> b))"

definition expireTrialCredits :: "env \<Rightarrow> user_id \<Rightarrow> string \<Rightarrow> string \<Rightarrow> db \<Rightarrow> unit outcome" where
  "expireTrialCredits e userId appKey reason s =
     (let trialBalance = stored_trial (data (select_user_credits e s userId)) in
      if trialBalance = 0 then (Inr (), s)
      else
        (let s1 = update_user_credits e userId
                    (\<lambda>r. r\<lparr>trial_balance := Some 0,
                            trial_expires_at := None,
                            updated_at := Some (now e)\<rparr>) s
         in case getBalance e userId s1 of
              (Inl err, s2) \<Rightarrow> (Inl err, s2)
            | (Inr balance, s2) \<Rightarrow>
                (let (txn, s3) = insert_transaction e userId (- trialBalance) (total balance) Trial
                                   Trial_expiry (''Trial credits expired: '' @ reason)
                                   (Some appKey) None s2
                 in (Inr (), s3))))"

text \<open>
  The two logging blocks of \<open>mergeTrialCredits\<close>: each reads the balance again and
  inserts one row; a failing read throws.
\<close>

definition log_merge ::
  "env \<Rightarrow> user_id \<Rightarrow> string \<Rightarrow> int \<Rightarrow> db \<Rightarrow> unit outcome" where
  "log_merge e userId appKey merged s =
     (if merged > 0 then
        (case getBalance e userId s of
           (Inl err, s1) \<Rightarrow> (Inl err, s1)
         | (Inr balance, s1) \<Rightarrow>
             (let (txn, s2) = insert_transaction e userId merged (total balance) Subscription
                                Trial_merge (''Trial credits merged on conversion ('' @ appKey @ '')'')
                                (Some appKey) None s1
              in (Inr (), s2)))
      else (Inr (), s))"

definition log_overflow ::
  "env \<Rightarrow> user_id \<Rightarrow> string \<Rightarrow> int \<Rightarrow> db \<Rightarrow> unit outcome" where
  "log_overflow e userId appKey lost s =
     (if lost > 0 then
        (case getBalance e userId s of
           (Inl err, s1) \<Rightarrow> (Inl err, s1)
         | (Inr balance, s1) \<Rightarrow>
             (let (txn, s2) = insert_transaction e userId (- lost) (total balance) Trial
                                Trial_merge_overflow
                                (''Trial credits lost on merge (cap reached) ('' @ appKey @ '')'')
                                (Some appKey) None s1
              in (Inr (), s2)))
      else (Inr (), s))"

definition mergeTrialCredits :: "env \<Rightarrow> user_id \<Rightarrow> string \<Rightarrow> db \<Rightarrow> int outcome" where
  "mergeTrialCredits e userId appKey s =
     (let d = data (select_user_credits e s userId);
          trialBalance = stored_trial d
      in if trialBalance = 0 then (Inr 0, s)
         else
           (let subBalance = (case d of None \<Rightarrow> 0 | Some r \<Rightarrow> subscription_balance r);
                cap = (case d of None \<Rightarrow> 900 | Some r \<Rightarrow> subscription_cap r);
                headroom = max 0 (cap - subBalance);
                merged = min trialBalance headroom;
                s1 = update_user_credits e userId
                       (\<lambda>r. r\<lparr>trial_balance := Some 0,
                               trial_expires_at := None,
                               subscription_balance := subBalance + merged,
                               updated_at := Some (now e)\<rparr>) s
            in case log_merge e userId appKey merged s1 of
                 (Inl err, s2) \<Rightarrow> (Inl err, s2)
               | (Inr u, s2) \<Rightarrow>
                   (case log_overflow e userId appKey (trialBalance - merged) s2 of
                      (Inl err, s3) \<Rightarrow> (Inl err, s3)
                    | (Inr u', s3) \<Rightarrow> (Inr merged, s3))))"

section \<open>Dynamic cap recalculation\<close>

text \<open>
  \<^verbatim>\<open>from("app_subscriptions").select(...).eq("user_id", userId).in("status",
  ["active", "trialing", "past_due"])\<close>
\<close>

definition select_app_subscriptions :: "env \<Rightarrow> user_id \<Rightarrow> app_subscription list response" where
  "select_app_subscriptions e userId =
     (case failing e App_subscriptions of
        Some msg \<Rightarrow> \<lparr>data = None, error = Some msg\<rparr>
      | None \<Rightarrow>
          \<lparr>data = Some (filter (\<lambda>sub. sub_user_id sub = userId
                                  \<and> status sub \<in> set [''active'', ''trialing'', ''past_due''])
                         (app_subscriptions e)),
           error = None\<rparr>)"

text \<open>
  What one subscription adds to \<open>totalCap\<close> in the loop: the cap of the plan found by
  price id (looked up only for a non-empty price id), else of the plan found by app key,
  else 900.
\<close>

definition cap_contribution :: "env \<Rightarrow> app_subscription \<Rightarrow> int" where
  "cap_contribution e sub =
     (let plan = (case stripe_price_id sub of
                    None \<Rightarrow> None
                  | Some pid \<Rightarrow> (if pid = [] then None else findSubscriptionByPriceId e pid))
      in case plan of
           Some p \<Rightarrow> creditCap p
         | None \<Rightarrow>
             (case findSubscriptionPlan e (sub_app_key sub) of
                Some fallback \<Rightarrow> creditCap fallback
              | None \<Rightarrow> 900))"

text \<open>The loop \<^verbatim>\<open>for (const sub of subs) { totalCap += ... }\<close>.\<close>

fun sum_caps :: "env \<Rightarrow> app_subscription list \<Rightarrow> int \<Rightarrow> int" where
  "sum_caps e [] totalCap = totalCap"
| "sum_caps e (sub # subs) totalCap = sum_caps e subs (totalCap + cap_contribution e sub)"

definition recalculateSubscriptionCap :: "env \<Rightarrow> user_id \<Rightarrow> db \<Rightarrow> int outcome" where
  "recalculateSubscriptionCap e userId s =
     (let res = select_app_subscriptions e userId in
      case error res of
        Some msg \<Rightarrow> (Inr 900, s)
      | None \<Rightarrow>
          (let totalCap = (case data res of
                             None \<Rightarrow> 900
                           | Some subs \<Rightarrow> (if subs = [] then 900 else sum_caps e subs 0));
               s1 = update_user_credits e userId
                      (\<lambda>r. r\<lparr>subscription_cap := totalCap, updated_at := Some (now e)\<rparr>) s
           in (Inr totalCap, s1)))"

section \<open>Sequences of engine operations\<close>

datatype op =
  GetBalance user_id
  | DeductCredits user_id string string "string option"
  | AllocateSubscriptionCredits user_id int string "string option"
  | AllocateTopUpCredits user_id int string "string option"
  | AllocateRetentionBonus user_id int
  | AllocateTrialCredits user_id int string timestamp "string option"
  | ExpireTrialCredits user_id string string
  | MergeTrialCredits user_id string
  | RecalculateSubscriptionCap user_id

text \<open>The store one operation leaves, whether it returns or throws.\<close>

fun step :: "env \<Rightarrow> op \<Rightarrow> db \<Rightarrow> db" where
  "step e (GetBalance u) s = snd (getBalance e u s)"
| "step e (DeductCredits u appKey operation ref) s = snd (deductCredits e u appKey operation ref s)"
| "step e (AllocateSubscriptionCredits u amt appKey ref) s =
     snd (allocateSubscriptionCredits e u amt appKey ref s)"
| "step e (AllocateTopUpCredits u amt packName ref) s = snd (allocateTopUpCredits e u amt packName ref s)"
| "step e (AllocateRetentionBonus u amt) s = snd (allocateRetentionBonus e u amt s)"
| "step e (AllocateTrialCredits u amt appKey ends ref) s =
     snd (allocateTrialCredits e u amt appKey ends ref s)"
| "step e (ExpireTrialCredits u appKey reason) s = snd (expireTrialCredits e u appKey reason s)"
| "step e (MergeTrialCredits u appKey) s = snd (mergeTrialCredits e u appKey s)"
| "step e (RecalculateSubscriptionCap u) s = snd (recalculateSubscriptionCap e u s)"

text \<open>Operations run one after the other, each in the environment of its moment.\<close>

fun run :: "(env \<times> op) list \<Rightarrow> db \<Rightarrow> db" where
  "run [] s = s"
| "run ((e, c) # cs) s = run cs (step e c s)"

fun is_recalc :: "op \<Rightarrow> bool" where
  "is_recalc (RecalculateSubscriptionCap u) = True"
| "is_recalc c = False"

text \<open>The subscription pool of a user's row is within the row's cap (or there is no row).\<close>

definition within_cap :: "db \<Rightarrow> user_id \<Rightarrow> bool" where
  "within_cap s u =
     (case user_credits s u of None \<Rightarrow> True | Some r \<Rightarrow> subscription_balance r \<le> subscription_cap r)"

section \<open>The webhook handler\<close>

text \<open>
  The inbound request, as far as the handler looks at it: the method, the
  \<^verbatim>\<open>stripe-signature\<close> header and the body.
\<close>

record http_request =
  httpMethod :: string
  stripe_signature :: "string option"
  body :: "string option"

datatype json_body = Error_body string | Received (duplicate: bool)

datatype http_response = JsonResponse nat json_body

text \<open>A verified event; \<open>'p\<close> is the payload \<^verbatim>\<open>data.object\<close>.\<close>

record 'p stripe_event =
  ev_id :: string
  ev_type :: string
  ev_object :: 'p

text \<open>
  The nine event handlers of the switch. They call the payment provider and the store;
  here each is a parameter: any function from the payload and the store to an outcome,
  \<open>Inl\<close> when it throws.
\<close>

record 'p handlers =
  handleCheckoutCompleted :: "'p \<Rightarrow> db \<Rightarrow> unit outcome"
  handleInvoicePaymentSucceeded :: "'p \<Rightarrow> db \<Rightarrow> unit outcome"
  handleSubscriptionUpdated :: "'p \<Rightarrow> db \<Rightarrow> unit outcome"
  handleSubscriptionDeleted :: "'p \<Rightarrow> db \<Rightarrow> unit outcome"
  handleSubscriptionPaused :: "'p \<Rightarrow> db \<Rightarrow> unit outcome"
  handleSubscriptionResumed :: "'p \<Rightarrow> db \<Rightarrow> unit outcome"
  handleInvoicePaymentFailed :: "'p \<Rightarrow> db \<Rightarrow> unit outcome"
  handleTrialWillEnd :: "'p \<Rightarrow> db \<Rightarrow> unit outcome"
  handleInvoiceActionRequired :: "'p \<Rightarrow> db \<Rightarrow> unit outcome"

text \<open>\<^verbatim>\<open>from("stripe_events").select("id").eq("id", eventId).maybeSingle()\<close>\<close>

definition select_stripe_event :: "env \<Rightarrow> db \<Rightarrow> string \<Rightarrow> stripe_event_row response" where
  "select_stripe_event e s eventId =
     (case failing e Stripe_events of
        Some msg \<Rightarrow> \<lparr>data = None, error = Some msg\<rparr>
      | None \<Rightarrow> \<lparr>data = stripe_events s eventId, error = None\<rparr>)"

definition isEventProcessed :: "env \<Rightarrow> db \<Rightarrow> string \<Rightarrow> bool" where
  "isEventProcessed e s eventId =
     (case data (select_stripe_event e s eventId) of None \<Rightarrow> False | Some r \<Rightarrow> True)"

text \<open>
  \<^verbatim>\<open>from("stripe_events").insert({ id, type, payload })\<close>; the event id is the key, so
  a second insert of the same id is refused.
\<close>

definition markEventProcessed :: "env \<Rightarrow> string \<Rightarrow> string \<Rightarrow> string option \<Rightarrow> db \<Rightarrow> db" where
  "markEventProcessed e eventId eventType pl s =
     (case failing e Stripe_events of
        Some msg \<Rightarrow> s
      | None \<Rightarrow>
          (case stripe_events s eventId of
             Some r \<Rightarrow> s
           | None \<Rightarrow>
               s\<lparr>stripe_events := (stripe_events s)(eventId \<mapsto> \<lparr>event_type = eventType, payload = pl\<rparr>)\<rparr>))"

text \<open>The \<^verbatim>\<open>switch (stripeEvent.type)\<close>; an unhandled type is logged and nothing else.\<close>

definition dispatch :: "'p handlers \<Rightarrow> 'p stripe_event \<Rightarrow> db \<Rightarrow> unit outcome" where
  "dispatch hs ev s =
     (if ev_type ev = ''checkout.session.completed'' then handleCheckoutCompleted hs (ev_object ev) s
      else if ev_type ev = ''invoice.payment_succeeded'' then handleInvoicePaymentSucceeded hs (ev_object ev) s
      else if ev_type ev = ''customer.subscription.updated'' then handleSubscriptionUpdated hs (ev_object ev) s
      else if ev_type ev = ''customer.subscription.deleted'' then handleSubscriptionDeleted hs (ev_object ev) s
      else if ev_type ev = ''customer.subscription.paused'' then handleSubscriptionPaused hs (ev_object ev) s
      else if ev_type ev = ''customer.subscription.resumed'' then handleSubscriptionResumed hs (ev_object ev) s
      else if ev_type ev = ''invoice.payment_failed'' then handleInvoicePaymentFailed hs (ev_object ev) s
      else if ev_type ev = ''customer.subscription.trial_will_end'' then handleTrialWillEnd hs (ev_object ev) s
      else if ev_type ev = ''invoice.payment_action_required'' then handleInvoiceActionRequired hs (ev_object ev) s
      else (Inr (), s))"

text \<open>
  The handler. A header or body that is \<^verbatim>\<open>undefined\<close> or the empty string is
  falsy. \<open>constructWebhookEvent\<close> verifies the signature with the provider's library
  and is a parameter: \<open>Inl\<close> when it throws.
\<close>

definition handler ::
  "env \<Rightarrow> (string \<Rightarrow> string \<Rightarrow> http_error + 'p stripe_event) \<Rightarrow> 'p handlers
     \<Rightarrow> http_request \<Rightarrow> db \<Rightarrow> http_response \<times> db" where
  "handler e constructWebhookEvent hs event s =
     (if httpMethod event \<noteq> ''POST'' then (JsonResponse 405 (Error_body ''Method not allowed''), s)
      else
        (case (stripe_signature event, body event) of
           (Some signature, Some b) \<Rightarrow>
             (if signature = [] \<or> b = [] then
                (JsonResponse 400 (Error_body ''Missing signature or body''), s)
              else
                (case constructWebhookEvent b signature of
                   Inl err \<Rightarrow> (JsonResponse 400 (Error_body ''Invalid signature''), s)
                 | Inr stripeEvent \<Rightarrow>
                     (if isEventProcessed e s (ev_id stripeEvent) then
                        (JsonResponse 200 (Received True), s)
                      else
                        (case dispatch hs stripeEvent s of
                           (Inl err, s1) \<Rightarrow>
                             (JsonResponse 500 (Error_body ''Webhook handler error''), s1)
                         | (Inr u, s1) \<Rightarrow>
                             (JsonResponse 200 (Received False),
                              markEventProcessed e (ev_id stripeEvent) (ev_type stripeEvent) None s1)))))
         | _ \<Rightarrow> (JsonResponse 400 (Error_body ''Missing signature or body''), s)))"

text \<open>The same request delivered \<open>n\<close> times in a row.\<close>

fun redeliver ::
  "nat \<Rightarrow> env \<Rightarrow> (string \<Rightarrow> string \<Rightarrow> http_error + 'p stripe_event) \<Rightarrow> 'p handlers
     \<Rightarrow> http_request \<Rightarrow> db \<Rightarrow> db" where
  "redeliver 0 e constructWebhookEvent hs event s = s"
| "redeliver (Suc n) e constructWebhookEvent hs event s =
     redeliver n e constructWebhookEvent hs event (snd (handler e constructWebhookEvent hs event s))"

section \<open>The rows a deduction is expected to write\<close>

text \<open>
  The \<open>usage_deduction\<close> rows a deduction is expected to append, one per pool share
  (pool, amount deducted, running balance after), numbered from \<open>n\<close> in the order written.
\<close>

fun usage_rows ::
  "nat \<Rightarrow> user_id \<Rightarrow> string \<Rightarrow> string \<Rightarrow> string option \<Rightarrow> (pool \<times> int \<times> int) list
     \<Rightarrow> credit_transaction list" where
  "usage_rows n userId appKey operation referenceId [] = []"
| "usage_rows n userId appKey operation referenceId ((p, deducted, after) # shares) =
     \<lparr>txn_id = n, user_id = userId, amount = - deducted, balance_after = after, pool = p,
      txn_type = Usage_deduction, description = operation @ '' ('' @ appKey @ '')'',
      app_key = Some appKey, reference_id = referenceId\<rparr>
     # usage_rows (Suc n) userId appKey operation referenceId shares"

text \<open>The shares that are positive, in drain order, with the balance after each.\<close>

definition positive_shares :: "int \<Rightarrow> int \<Rightarrow> int \<Rightarrow> int \<Rightarrow> (pool \<times> int \<times> int) list" where
  "positive_shares tot fromTrial fromTopup fromSub =
     (if 0 < fromTrial then [(Trial, fromTrial, tot - fromTrial)] else [])
     @ (if 0 < fromTopup then [(Topup, fromTopup, tot - fromTrial - fromTopup)] else [])
     @ (if 0 < fromSub then [(Subscription, fromSub, tot - fromTrial - fromTopup - fromSub)] else [])"

section \<open>Worked examples\<close>

definition ex_env :: env where
  "ex_env =
     \<lparr>now = 1000, failing = (\<lambda>t. None),
      app_credit_config = [(''keywords'', ''search'') \<mapsto> \<lparr>credit_cost = 10, is_active = True\<rparr>,
                           (''keywords'', ''report'') \<mapsto> \<lparr>credit_cost = 12, is_active = True\<rparr>],
      app_subscriptions = [],
      findSubscriptionByPriceId = (\<lambda>p. None),
      findSubscriptionPlan = (\<lambda>a. None)\<rparr>"

definition ex_row :: "int \<Rightarrow> int \<Rightarrow> int \<Rightarrow> timestamp option \<Rightarrow> int \<Rightarrow> user_credits_row" where
  "ex_row sb tb tr ex c =
     \<lparr>subscription_balance = sb, topup_balance = tb, trial_balance = Some tr,
      trial_expires_at = ex, subscription_cap = c, lifetime_earned = 0,
      lifetime_spent = 0, last_allocated = None, updated_at = None\<rparr>"

definition ex_db :: "user_credits_row \<Rightarrow> db" where
  "ex_db r = \<lparr>user_credits = [''u1'' \<mapsto> r], credit_transactions = [], stripe_events = Map.empty\<rparr>"

definition empty_db :: db where
  "empty_db = \<lparr>user_credits = Map.empty, credit_transactions = [], stripe_events = Map.empty\<rparr>"

text \<open>
  An environment with a plan catalog and subscription records: user \<open>u1\<close> holds three
  qualifying subscriptions and a canceled one; \<open>u2\<close> holds one.
\<close>

definition ex_subs :: "app_subscription list" where
  "ex_subs =
     [\<lparr>sub_user_id = ''u1'', sub_app_key = ''keywords'', stripe_price_id = None, status = ''active''\<rparr>,
      \<lparr>sub_user_id = ''u2'', sub_app_key = ''keywords'', stripe_price_id = None, status = ''active''\<rparr>,
      \<lparr>sub_user_id = ''u1'', sub_app_key = ''labs'', stripe_price_id = Some ''price_labs_pro'',
       status = ''trialing''\<rparr>,
      \<lparr>sub_user_id = ''u1'', sub_app_key = ''maps'', stripe_price_id = Some ''price_old'',
       status = ''past_due''\<rparr>,
      \<lparr>sub_user_id = ''u1'', sub_app_key = ''audit'', stripe_price_id = Some ''price_labs_pro'',
       status = ''canceled''\<rparr>]"

definition ex_env_subs :: "(table \<Rightarrow> string option) \<Rightarrow> env" where
  "ex_env_subs f =
     \<lparr>now = 2000, failing = f,
      app_credit_config = Map.empty,
      app_subscriptions = ex_subs,
      findSubscriptionByPriceId = [''price_labs_pro'' \<mapsto> \<lparr>monthlyCredits = 1000, creditCap = 3000\<rparr>],
      findSubscriptionPlan = [''keywords'' \<mapsto> \<lparr>monthlyCredits = 300, creditCap = 1200\<rparr>,
                               ''labs'' \<mapsto> \<lparr>monthlyCredits = 500, creditCap = 1500\<rparr>]\<rparr>"

text \<open>
  A user subscribed to two apps, the second with the given status; the plan catalog knows
  both apps by app key. And the run of a ledger through two paid invoices and a renewal,
  after which the second subscription is canceled and the cap recalculated.
\<close>

definition ex_env_labs :: "string \<Rightarrow> env" where
  "ex_env_labs labs_status =
     \<lparr>now = 3000, failing = (\<lambda>t. None),
      app_credit_config = Map.empty,
      app_subscriptions =
        [\<lparr>sub_user_id = ''u1'', sub_app_key = ''keywords'', stripe_price_id = None,
          status = ''active''\<rparr>,
         \<lparr>sub_user_id = ''u1'', sub_app_key = ''labs'', stripe_price_id = None,
          status = labs_status\<rparr>],
      findSubscriptionByPriceId = (\<lambda>p. None),
      findSubscriptionPlan = [''keywords'' \<mapsto> \<lparr>monthlyCredits = 300, creditCap = 900\<rparr>,
                               ''labs'' \<mapsto> \<lparr>monthlyCredits = 500, creditCap = 1500\<rparr>]\<rparr>"

definition ex_cancel_run :: "(env \<times> op) list" where
  "ex_cancel_run =
     [(ex_env_labs ''active'', AllocateSubscriptionCredits ''u1'' 300 ''keywords'' (Some ''in_1'')),
      (ex_env_labs ''active'', RecalculateSubscriptionCap ''u1''),
      (ex_env_labs ''active'', AllocateSubscriptionCredits ''u1'' 500 ''labs'' (Some ''in_2'')),
      (ex_env_labs ''active'', AllocateSubscriptionCredits ''u1'' 300 ''keywords'' (Some ''in_3'')),
      (ex_env_labs ''canceled'', RecalculateSubscriptionCap ''u1'')]"

definition ex_plain_run :: "(env \<times> op) list" where
  "ex_plain_run =
     [(ex_env, AllocateTrialCredits ''u1'' 50 ''keywords'' 5000 None),
      (ex_env, AllocateSubscriptionCredits ''u1'' 1000 ''keywords'' (Some ''in_1'')),
      (ex_env, DeductCredits ''u1'' ''keywords'' ''report'' None),
      (ex_env, MergeTrialCredits ''u1'' ''keywords''),
      (ex_env, AllocateTopUpCredits ''u1'' 100 ''Starter'' None)]"

text \<open>
  A webhook setting: the payload is an invoice id; the paid-invoice handler allocates 300
  subscription credits, the checkout handler throws, the others do nothing. The
  signature check accepts the signature \<open>good\<close> and reads the event type from the body.
\<close>

definition ex_handlers :: "string handlers" where
  "ex_handlers =
     \<lparr>handleCheckoutCompleted = (\<lambda>p s. (Inl (HttpError 500 ''provider unreachable'' No_details), s)),
      handleInvoicePaymentSucceeded =
        (\<lambda>p s. case allocateSubscriptionCredits ex_env ''u1'' 300 ''keywords'' (Some p) s of
                  (Inl err, s') \<Rightarrow> (Inl err, s')
                | (Inr res, s') \<Rightarrow> (Inr (), s')),
      handleSubscriptionUpdated = (\<lambda>p s. (Inr (), s)),
      handleSubscriptionDeleted = (\<lambda>p s. (Inr (), s)),
      handleSubscriptionPaused = (\<lambda>p s. (Inr (), s)),
      handleSubscriptionResumed = (\<lambda>p s. (Inr (), s)),
      handleInvoicePaymentFailed = (\<lambda>p s. (Inr (), s)),
      handleTrialWillEnd = (\<lambda>p s. (Inr (), s)),
      handleInvoiceActionRequired = (\<lambda>p s. (Inr (), s))\<rparr>"

definition ex_construct :: "string \<Rightarrow> string \<Rightarrow> http_error + string stripe_event" where
  "ex_construct b signature =
     (if signature = ''good'' then Inr \<lparr>ev_id = ''evt_1'', ev_type = b, ev_object = ''in_1''\<rparr>
      else Inl (HttpError 400 ''bad signature'' No_details))"

definition ex_request :: "string \<Rightarrow> http_request" where
  "ex_request b = \<lparr>httpMethod = ''POST'', stripe_signature = Some ''good'', body = Some b\<rparr>"

text \<open>
  The same setting when the read of \<open>stripe_events\<close> fails (every other table is
  reachable), and the store that one delivery of the paid-invoice event leaves.
\<close>

definition ex_env_events_down :: env where
  "ex_env_events_down =
     ex_env\<lparr>failing := (\<lambda>t. if t = Stripe_events then Some ''timeout'' else None)\<rparr>"

definition ex_paid_store :: db where
  "ex_paid_store =
     snd (handler ex_env ex_construct ex_handlers (ex_request ''invoice.payment_succeeded'') empty_db)"

section \<open>Properties of reading the balance\<close>

lemma getBalance_snd: "snd (getBalance e userId s) = s"
  by (simp add: getBalance_def Let_def split: option.splits)

lemma getBalance_row:
  assumes "failing e User_credits = None" and "user_credits s userId = Some r"
  shows "getBalance e userId s =
           (Inr \<lparr>subscriptionBalance = subscription_balance r,
                 topupBalance = topup_balance r,
                 trialBalance = effective_trial (now e) r,
                 total = subscription_balance r + topup_balance r + effective_trial (now e) r,
                 cap = subscription_cap r,
                 lifetimeEarned = lifetime_earned r,
                 lifetimeSpent = lifetime_spent r\<rparr>, s)"
  using assms by (simp add: getBalance_def select_user_credits_def Let_def)

lemma getBalance_no_row:
  assumes "failing e User_credits = None" and "user_credits s userId = None"
  shows "getBalance e userId s =
           (Inr \<lparr>subscriptionBalance = 0, topupBalance = 0, trialBalance = 0, total = 0,
                 cap = 900, lifetimeEarned = 0, lifetimeSpent = 0\<rparr>, s)"
  using assms by (simp add: getBalance_def select_user_credits_def Let_def)

lemma getBalance_failing:
  assumes "failing e User_credits = Some msg"
  shows "getBalance e userId s =
           (Inl (HttpError 500 ''Failed to fetch credit balance'' (Message msg)), s)"
  using assms by (simp add: getBalance_def select_user_credits_def Let_def)

lemma getBalance_total:
  assumes "fst (getBalance e userId s) = Inr b"
  shows "total b = subscriptionBalance b + topupBalance b + trialBalance b"
  using assms
  by (auto simp add: getBalance_def select_user_credits_def Let_def split: option.splits)

text \<open>
  Claim C7. \<open>getBalance\<close> leaves the store as it found it, whatever it answers. For a
  user with no row it answers the zeroed balance with cap 900, and no row is created. For
  a row whose \<open>trial_expires_at\<close> lies before the clock it reports trial balance 0 and a
  total of the other two pools only, while the stored row, \<open>trial_balance\<close> included, is
  still what it was.
\<close>

theorem getBalance_no_side_effects:
  "snd (getBalance e userId s) = s
   \<and> (failing e User_credits = None \<longrightarrow> user_credits s userId = None \<longrightarrow>
        fst (getBalance e userId s) =
          Inr \<lparr>subscriptionBalance = 0, topupBalance = 0, trialBalance = 0, total = 0,
                cap = 900, lifetimeEarned = 0, lifetimeSpent = 0\<rparr>)
   \<and> (failing e User_credits = None \<longrightarrow> user_credits s userId = Some r \<longrightarrow>
        trial_expires_at r = Some ex \<longrightarrow> ex < now e \<longrightarrow>
        fst (getBalance e userId s) =
          Inr \<lparr>subscriptionBalance = subscription_balance r,
                topupBalance = topup_balance r,
                trialBalance = 0,
                total = subscription_balance r + topup_balance r,
                cap = subscription_cap r,
                lifetimeEarned = lifetime_earned r,
                lifetimeSpent = lifetime_spent r\<rparr>)"
  by (simp add: getBalance_snd getBalance_no_row getBalance_row effective_trial_def)

theorem getBalance_no_side_effects_witness:
  "snd (getBalance ex_env ''u2'' (ex_db (ex_row 100 10 50 (Some 999) 900))) = ex_db (ex_row 100 10 50 (Some 999) 900)
   \<and> user_credits (ex_db (ex_row 100 10 50 (Some 999) 900)) ''u2'' = None
   \<and> fst (getBalance ex_env ''u2'' (ex_db (ex_row 100 10 50 (Some 999) 900))) =
          Inr \<lparr>subscriptionBalance = 0, topupBalance = 0, trialBalance = 0, total = 0,
                cap = 900, lifetimeEarned = 0, lifetimeSpent = 0\<rparr>
   \<and> snd (getBalance ex_env ''u1'' (ex_db (ex_row 100 10 50 (Some 999) 900))) = ex_db (ex_row 100 10 50 (Some 999) 900)
   \<and> trial_balance (ex_row 100 10 50 (Some 999) 900) = Some 50
   \<and> fst (getBalance ex_env ''u1'' (ex_db (ex_row 100 10 50 (Some 999) 900))) =
          Inr \<lparr>subscriptionBalance = 100, topupBalance = 10, trialBalance = 0, total = 110,
                cap = 900, lifetimeEarned = 0, lifetimeSpent = 0\<rparr>"
proof -
  let ?r = "ex_row 100 10 50 (Some 999) 900"
  have f: "failing ex_env User_credits = None" by (simp add: ex_env_def)
  have n: "user_credits (ex_db ?r) ''u2'' = None" by (simp add: ex_db_def)
  have y: "user_credits (ex_db ?r) ''u1'' = Some ?r" by (simp add: ex_db_def)
  have x: "trial_expires_at ?r = Some 999" by (simp add: ex_row_def)
  have l: "999 < now ex_env" by (simp add: ex_env_def)
  from getBalance_no_side_effects [of ex_env "''u2''" "ex_db ?r" ?r 999] f n
  have a: "snd (getBalance ex_env ''u2'' (ex_db ?r)) = ex_db ?r
     \<and> fst (getBalance ex_env ''u2'' (ex_db ?r)) =
          Inr \<lparr>subscriptionBalance = 0, topupBalance = 0, trialBalance = 0, total = 0,
                cap = 900, lifetimeEarned = 0, lifetimeSpent = 0\<rparr>" by blast
  from getBalance_no_side_effects [of ex_env "''u1''" "ex_db ?r" ?r 999] f y x l
  have b: "snd (getBalance ex_env ''u1'' (ex_db ?r)) = ex_db ?r
     \<and> fst (getBalance ex_env ''u1'' (ex_db ?r)) =
          Inr \<lparr>subscriptionBalance = subscription_balance ?r,
                topupBalance = topup_balance ?r,
                trialBalance = 0,
                total = subscription_balance ?r + topup_balance ?r,
                cap = subscription_cap ?r,
                lifetimeEarned = lifetime_earned ?r,
                lifetimeSpent = lifetime_spent ?r\<rparr>" by blast
  have t: "trial_balance ?r = Some 50" by (simp add: ex_row_def)
  from a b n t show ?thesis by (simp add: ex_row_def)
qed

section \<open>Properties of deductions\<close>

text \<open>
  Claim C3. When the total \<open>getBalance\<close> reports is strictly less than the cost of the
  operation, \<open>deductCredits\<close> throws the 402 error "Insufficient credits" carrying
  \<open>required = cost\<close> and \<open>available = total\<close>, and the store (account rows and
  transaction log) is exactly the store it was called on.
\<close>

theorem deductCredits_insufficient:
  assumes "getCreditCost e appKey operation = Inr cost"
      and "fst (getBalance e userId s) = Inr balance"
      and "total balance < cost"
  shows "deductCredits e userId appKey operation referenceId s =
           (Inl (HttpError 402 ''Insufficient credits'' (Shortfall cost (total balance))), s)"
proof -
  from assms(2) have "getBalance e userId s = (Inr balance, s)"
    by (metis getBalance_snd prod.collapse)
  with assms(1,3) show ?thesis
    by (simp add: deductCredits_def)
qed

theorem deductCredits_insufficient_witness:
  "deductCredits ex_env ''u1'' ''keywords'' ''search'' None (ex_db (ex_row 2 1 0 None 900)) =
     (Inl (HttpError 402 ''Insufficient credits'' (Shortfall 10 3)), ex_db (ex_row 2 1 0 None 900))"
proof -
  let ?b = "\<lparr>subscriptionBalance = 2, topupBalance = 1, trialBalance = 0, total = 3,
             cap = 900, lifetimeEarned = 0, lifetimeSpent = 0\<rparr>"
  have c: "getCreditCost ex_env ''keywords'' ''search'' = Inr 10"
    by (simp add: getCreditCost_def ex_env_def)
  have b: "fst (getBalance ex_env ''u1'' (ex_db (ex_row 2 1 0 None 900))) = Inr ?b"
    by (simp add: getBalance_def select_user_credits_def ex_env_def ex_db_def ex_row_def
        effective_trial_def)
  have l: "total ?b < 10" by simp
  from deductCredits_insufficient [OF c b l, of None] show ?thesis by simp
qed

lemma log_deduction_pos:
  assumes "failing e Credit_transactions = None" and "0 < deducted"
  shows "log_deduction e userId appKey operation referenceId p deducted after (l, s) =
           (Some (length (credit_transactions s)),
            s\<lparr>credit_transactions := credit_transactions s
                 @ usage_rows (length (credit_transactions s)) userId appKey operation referenceId
                     [(p, deducted, after)]\<rparr>)"
  using assms by (simp add: log_deduction_def insert_transaction_def Let_def)

lemma log_deduction_nonpos:
  assumes "\<not> 0 < deducted"
  shows "log_deduction e userId appKey operation referenceId p deducted after st = st"
  using assms by (simp add: log_deduction_def)

lemma deductCredits_success:
  assumes uc: "failing e User_credits = None"
      and ct: "failing e Credit_transactions = None"
      and row: "user_credits s userId = Some r"
      and cost: "getCreditCost e appKey operation = Inr c"
      and enough: "c \<le> subscription_balance r + topup_balance r + effective_trial (now e) r"
  shows "deductCredits e userId appKey operation referenceId s =
      (let tot = subscription_balance r + topup_balance r + effective_trial (now e) r;
           fromTrial = min c (effective_trial (now e) r);
           fromTopup = min (c - fromTrial) (topup_balance r);
           fromSub = c - fromTrial - fromTopup;
           rows = usage_rows (length (credit_transactions s)) userId appKey operation referenceId
                    (positive_shares tot fromTrial fromTopup fromSub)
       in (Inr \<lparr>newBalance = tot - c,
                transactionId = (if rows = [] then None else Some (txn_id (last rows)))\<rparr>,
           s\<lparr>user_credits := (user_credits s)(userId \<mapsto>
                 r\<lparr>trial_balance := Some (effective_trial (now e) r - fromTrial),
                   topup_balance := topup_balance r - fromTopup,
                   subscription_balance := subscription_balance r - fromSub,
                   lifetime_spent := lifetime_spent r + c,
                   updated_at := Some (now e)\<rparr>),
             credit_transactions := credit_transactions s @ rows\<rparr>))"
proof -
  define tr where "tr = effective_trial (now e) r"
  define tot where "tot = subscription_balance r + topup_balance r + tr"
  define ft where "ft = min c tr"
  define fp where "fp = min (c - ft) (topup_balance r)"
  define fs where "fs = c - ft - fp"
  have gb: "getBalance e userId s =
           (Inr \<lparr>subscriptionBalance = subscription_balance r,
                 topupBalance = topup_balance r,
                 trialBalance = tr,
                 total = tot,
                 cap = subscription_cap r,
                 lifetimeEarned = lifetime_earned r,
                 lifetimeSpent = lifetime_spent r\<rparr>, s)"
    using uc row by (simp add: getBalance_def select_user_credits_def Let_def tr_def tot_def)
  have le: "\<not> tot < c" using enough by (simp add: tot_def tr_def)
  have fold: "min c tr = ft" "min (c - ft) (topup_balance r) = fp" "c - ft - fp = fs"
    by (simp_all add: ft_def fp_def fs_def)
  have after: "tot - ft - fp - fs = tot - c" by (simp add: fs_def)
  have run: "deductCredits e userId appKey operation referenceId s =
      (let rows = usage_rows (length (credit_transactions s)) userId appKey operation referenceId
                    (positive_shares tot ft fp fs)
       in (Inr \<lparr>newBalance = tot - c,
                transactionId = (if rows = [] then None else Some (txn_id (last rows)))\<rparr>,
           s\<lparr>user_credits := (user_credits s)(userId \<mapsto>
                 r\<lparr>trial_balance := Some (tr - ft),
                   topup_balance := topup_balance r - fp,
                   subscription_balance := subscription_balance r - fs,
                   lifetime_spent := lifetime_spent r + c,
                   updated_at := Some (now e)\<rparr>),
             credit_transactions := credit_transactions s @ rows\<rparr>))"
  proof -
    consider (a) "0 < ft" "0 < fp" "0 < fs" | (b) "0 < ft" "0 < fp" "\<not> 0 < fs"
      | (c) "0 < ft" "\<not> 0 < fp" "0 < fs" | (d) "0 < ft" "\<not> 0 < fp" "\<not> 0 < fs"
      | (e) "\<not> 0 < ft" "0 < fp" "0 < fs" | (f) "\<not> 0 < ft" "0 < fp" "\<not> 0 < fs"
      | (g) "\<not> 0 < ft" "\<not> 0 < fp" "0 < fs" | (h) "\<not> 0 < ft" "\<not> 0 < fp" "\<not> 0 < fs"
      by blast
    then show ?thesis
      using row uc ct le
      by cases
        (simp_all add: deductCredits_def cost gb Let_def fold after update_user_credits_def
           positive_shares_def log_deduction_pos log_deduction_nonpos)
  qed
  show ?thesis
    unfolding run by (simp add: Let_def tr_def tot_def ft_def fp_def fs_def)
qed

lemma log_deduction_user_credits:
  "user_credits (snd (log_deduction e userId appKey operation referenceId p deducted after st)) =
     user_credits (snd st)"
  by (simp add: log_deduction_def insert_transaction_def Let_def split: option.splits)

lemma log_deduction_rows:
  "\<exists>rows. credit_transactions (snd (log_deduction e userId appKey operation referenceId p deducted after st))
            = credit_transactions (snd st) @ rows
          \<and> (\<forall>t \<in> set rows. txn_type t = Usage_deduction \<and> pool t = p)"
  by (simp add: log_deduction_def insert_transaction_def Let_def split: option.splits)

lemma update_user_credits_transactions:
  "credit_transactions (update_user_credits e userId f s) = credit_transactions s"
  by (simp add: update_user_credits_def split: option.splits)

lemma deductCredits_Inr:
  assumes "fst (deductCredits e userId appKey operation referenceId s) = Inr res"
      and "getCreditCost e appKey operation = Inr c"
  shows "failing e User_credits = None"
    and "\<exists>balance. getBalance e userId s = (Inr balance, s) \<and> c \<le> total balance"
proof -
  obtain rb where gb: "getBalance e userId s = (rb, s)"
    by (metis getBalance_snd prod.collapse)
  from assms gb obtain balance where b: "rb = Inr balance" and le: "c \<le> total balance"
    by (cases rb) (auto simp add: deductCredits_def Let_def split: if_splits)
  from gb b show "failing e User_credits = None"
    by (cases "failing e User_credits") (simp_all add: getBalance_failing)
  from gb b le show "\<exists>balance. getBalance e userId s = (Inr balance, s) \<and> c \<le> total balance"
    by blast
qed

lemma deductCredits_user_credits:
  assumes uc: "failing e User_credits = None"
      and row: "user_credits s userId = Some r"
      and cost: "getCreditCost e appKey operation = Inr c"
      and enough: "c \<le> subscription_balance r + topup_balance r + effective_trial (now e) r"
  shows "user_credits (snd (deductCredits e userId appKey operation referenceId s)) =
           (user_credits s)(userId \<mapsto>
              r\<lparr>trial_balance := Some (effective_trial (now e) r - min c (effective_trial (now e) r)),
                topup_balance := topup_balance r
                   - min (c - min c (effective_trial (now e) r)) (topup_balance r),
                subscription_balance := subscription_balance r
                   - (c - min c (effective_trial (now e) r)
                      - min (c - min c (effective_trial (now e) r)) (topup_balance r)),
                lifetime_spent := lifetime_spent r + c,
                updated_at := Some (now e)\<rparr>)"
  using cost enough row uc
  by (simp add: deductCredits_def getBalance_row Let_def log_deduction_user_credits
      update_user_credits_def)


text \<open>
  Claim C2. On an account row whose reported total covers the cost \<open>c\<close>, with the store
  reachable, \<open>deductCredits\<close> returns; the shares are those of the fixed drain order,
  computed from the balance \<open>getBalance\<close> reports (trial, then top-up, then
  subscription); the row's three pools drop by their shares and \<open>lifetime_spent\<close> rises
  by \<open>c\<close>; the log grows by one \<open>usage_deduction\<close> row per pool with a positive share,
  carrying the running totals \<open>tot - fromTrial\<close>, \<open>tot - fromTrial - fromTopup\<close> and
  \<open>tot - c\<close>; and the returned \<open>transactionId\<close> is the id of the last row written,
  which is the subscription row if that pool was touched, else the top-up row, else the
  trial row.
\<close>

theorem deductCredits_drain_order:
  assumes "failing e User_credits = None"
      and "failing e Credit_transactions = None"
      and "user_credits s userId = Some r"
      and "getCreditCost e appKey operation = Inr c"
      and "c \<le> subscription_balance r + topup_balance r + effective_trial (now e) r"
  shows "let tot = subscription_balance r + topup_balance r + effective_trial (now e) r;
             fromTrial = min c (effective_trial (now e) r);
             fromTopup = min (c - fromTrial) (topup_balance r);
             fromSub = c - fromTrial - fromTopup;
             rows = usage_rows (length (credit_transactions s)) userId appKey operation referenceId
                      ((if 0 < fromTrial then [(Trial, fromTrial, tot - fromTrial)] else [])
                       @ (if 0 < fromTopup then [(Topup, fromTopup, tot - fromTrial - fromTopup)] else [])
                       @ (if 0 < fromSub then [(Subscription, fromSub, tot - c)] else []))
         in deductCredits e userId appKey operation referenceId s =
              (Inr \<lparr>newBalance = tot - c,
                    transactionId = (if rows = [] then None else Some (txn_id (last rows)))\<rparr>,
               s\<lparr>user_credits := (user_credits s)(userId \<mapsto>
                     r\<lparr>trial_balance := Some (effective_trial (now e) r - fromTrial),
                       topup_balance := topup_balance r - fromTopup,
                       subscription_balance := subscription_balance r - fromSub,
                       lifetime_spent := lifetime_spent r + c,
                       updated_at := Some (now e)\<rparr>),
                 credit_transactions := credit_transactions s @ rows\<rparr>)
            \<and> (rows = [] \<or>
                 pool (last rows) =
                   (if 0 < fromSub then Subscription else if 0 < fromTopup then Topup else Trial))"
proof -
  let ?tr = "effective_trial (now e) r"
  let ?tot = "subscription_balance r + topup_balance r + ?tr"
  let ?ft = "min c ?tr"
  let ?fp = "min (c - ?ft) (topup_balance r)"
  let ?fs = "c - ?ft - ?fp"
  have eq: "?tot - ?ft - ?fp - ?fs = ?tot - c" by simp
  have main: "deductCredits e userId appKey operation referenceId s =
      (let rows = usage_rows (length (credit_transactions s)) userId appKey operation referenceId
                    (positive_shares ?tot ?ft ?fp ?fs)
       in (Inr \<lparr>newBalance = ?tot - c,
                transactionId = (if rows = [] then None else Some (txn_id (last rows)))\<rparr>,
           s\<lparr>user_credits := (user_credits s)(userId \<mapsto>
                 r\<lparr>trial_balance := Some (?tr - ?ft),
                   topup_balance := topup_balance r - ?fp,
                   subscription_balance := subscription_balance r - ?fs,
                   lifetime_spent := lifetime_spent r + c,
                   updated_at := Some (now e)\<rparr>),
             credit_transactions := credit_transactions s @ rows\<rparr>))"
    using deductCredits_success [OF assms, of referenceId] by (simp add: Let_def)
  have last_pool:
    "usage_rows (length (credit_transactions s)) userId appKey operation referenceId
        (positive_shares ?tot ?ft ?fp ?fs) = []
     \<or> pool (last (usage_rows (length (credit_transactions s)) userId appKey operation referenceId
                     (positive_shares ?tot ?ft ?fp ?fs))) =
          (if 0 < ?fs then Subscription else if 0 < ?fp then Topup else Trial)"
    by (simp add: positive_shares_def)
  show ?thesis
    unfolding Let_def using main last_pool
    by (simp only: positive_shares_def eq Let_def) 
qed


theorem deductCredits_drain_order_witness:
  "deductCredits ex_env ''u1'' ''keywords'' ''report'' (Some ''job-1'') (ex_db (ex_row 100 10 5 None 900)) =
     (Inr \<lparr>newBalance = 103, transactionId = Some 1\<rparr>,
      \<lparr>user_credits = [''u1'' \<mapsto>
           \<lparr>subscription_balance = 100, topup_balance = 3, trial_balance = Some 0,
            trial_expires_at = None, subscription_cap = 900, lifetime_earned = 0,
            lifetime_spent = 12, last_allocated = None, updated_at = Some 1000\<rparr>],
       credit_transactions =
         [\<lparr>txn_id = 0, user_id = ''u1'', amount = - 5, balance_after = 110, pool = Trial,
           txn_type = Usage_deduction, description = ''report (keywords)'',
           app_key = Some ''keywords'', reference_id = Some ''job-1''\<rparr>,
          \<lparr>txn_id = 1, user_id = ''u1'', amount = - 7, balance_after = 103, pool = Topup,
           txn_type = Usage_deduction, description = ''report (keywords)'',
           app_key = Some ''keywords'', reference_id = Some ''job-1''\<rparr>],
       stripe_events = Map.empty\<rparr>)"
proof -
  let ?r = "ex_row 100 10 5 None 900"
  have h1: "failing ex_env User_credits = None" by (simp add: ex_env_def)
  have h2: "failing ex_env Credit_transactions = None" by (simp add: ex_env_def)
  have h3: "user_credits (ex_db ?r) ''u1'' = Some ?r" by (simp add: ex_db_def)
  have h4: "getCreditCost ex_env ''keywords'' ''report'' = Inr 12"
    by (simp add: getCreditCost_def ex_env_def)
  have h5: "12 \<le> subscription_balance ?r + topup_balance ?r + effective_trial (now ex_env) ?r"
    by (simp add: ex_row_def effective_trial_def)
  from deductCredits_drain_order [OF h1 h2 h3 h4 h5, of "Some ''job-1''"]
  show ?thesis
    by (simp add: Let_def ex_row_def ex_db_def ex_env_def effective_trial_def)
qed


text \<open>
  Claim C9. Take a row whose trial has expired by the clock while its stored
  \<open>trial_balance\<close> is still positive, and a deduction of a non-negative cost that
  succeeds. The row it leaves has \<open>trial_balance = 0\<close> (with \<open>trial_expires_at\<close> as
  before), and every row the call appends to the log is a \<open>usage_deduction\<close> on the
  top-up or subscription pool: no \<open>trial_expiry\<close> row records the credits that
  vanished.
\<close>

theorem deductCredits_purges_expired_trial:
  assumes row: "user_credits s userId = Some r"
      and ex: "trial_expires_at r = Some ex" "ex < now e"
      and stored: "trial_balance r = Some tb" "0 < tb"
      and cost: "getCreditCost e appKey operation = Inr c" "0 \<le> c"
      and ok: "fst (deductCredits e userId appKey operation referenceId s) = Inr res"
  shows "map_option trial_balance
             (user_credits (snd (deductCredits e userId appKey operation referenceId s)) userId)
           = Some (Some 0)
         \<and> map_option trial_expires_at
             (user_credits (snd (deductCredits e userId appKey operation referenceId s)) userId)
           = Some (Some ex)
         \<and> (\<exists>rows. credit_transactions (snd (deductCredits e userId appKey operation referenceId s))
                      = credit_transactions s @ rows
                    \<and> (\<forall>t \<in> set rows. txn_type t = Usage_deduction \<and> pool t \<noteq> Trial))"
proof -
  have tr: "effective_trial (now e) r = 0"
    using ex by (simp add: effective_trial_def)
  have uc: "failing e User_credits = None"
    using deductCredits_Inr(1) [OF ok cost(1)] .
  obtain balance where gb: "getBalance e userId s = (Inr balance, s)" and le: "c \<le> total balance"
    using deductCredits_Inr(2) [OF ok cost(1)] by blast
  have bal: "trialBalance balance = 0"
      "total balance = subscription_balance r + topup_balance r"
    using gb getBalance_row [OF uc row] tr by auto
  have enough: "c \<le> subscription_balance r + topup_balance r + effective_trial (now e) r"
    using le bal tr by simp
  have m: "min c 0 = 0" using cost(2) by simp
  have u: "user_credits (snd (deductCredits e userId appKey operation referenceId s)) userId =
             Some (r\<lparr>trial_balance := Some 0,
                     topup_balance := topup_balance r - min c (topup_balance r),
                     subscription_balance := subscription_balance r - (c - min c (topup_balance r)),
                     lifetime_spent := lifetime_spent r + c,
                     updated_at := Some (now e)\<rparr>)"
    using deductCredits_user_credits [OF uc row cost(1) enough, of referenceId]
    by (simp add: tr m)
  let ?fp = "min c (topupBalance balance)"
  let ?s1 = "update_user_credits e userId
               (\<lambda>r. r\<lparr>trial_balance := Some 0,
                       topup_balance := topupBalance balance - ?fp,
                       subscription_balance := subscriptionBalance balance - (c - ?fp),
                       lifetime_spent := lifetimeSpent balance + c,
                       updated_at := Some (now e)\<rparr>) s"
  let ?st2 = "log_deduction e userId appKey operation referenceId Topup ?fp
                (total balance - ?fp) (None, ?s1)"
  let ?st3 = "log_deduction e userId appKey operation referenceId Subscription (c - ?fp)
                (total balance - c) ?st2"
  have res: "snd (deductCredits e userId appKey operation referenceId s) = snd ?st3"
    using cost(1) gb le bal(1) m
    by (simp add: deductCredits_def Let_def log_deduction_nonpos)
  obtain r2 where r2: "credit_transactions (snd ?st2) = credit_transactions s @ r2"
      "\<forall>t \<in> set r2. txn_type t = Usage_deduction \<and> pool t = Topup"
    using log_deduction_rows [of e userId appKey operation referenceId Topup ?fp
        "total balance - ?fp" "(None, ?s1)"]
    by (auto simp add: update_user_credits_transactions)
  obtain r3 where r3: "credit_transactions (snd ?st3) = credit_transactions (snd ?st2) @ r3"
      "\<forall>t \<in> set r3. txn_type t = Usage_deduction \<and> pool t = Subscription"
    using log_deduction_rows [of e userId appKey operation referenceId Subscription "c - ?fp"
        "total balance - c" ?st2]
    by auto
  have "credit_transactions (snd ?st3) = credit_transactions s @ (r2 @ r3)"
    using r2(1) r3(1) by simp
  moreover have "\<forall>t \<in> set (r2 @ r3). txn_type t = Usage_deduction \<and> pool t \<noteq> Trial"
    using r2(2) r3(2) by auto
  ultimately have rows: "\<exists>rows. credit_transactions (snd (deductCredits e userId appKey operation referenceId s))
                      = credit_transactions s @ rows
                    \<and> (\<forall>t \<in> set rows. txn_type t = Usage_deduction \<and> pool t \<noteq> Trial)"
    unfolding res by blast
  from u rows show ?thesis by (simp add: ex(1))
qed

theorem deductCredits_purges_expired_trial_witness:
  "trial_balance (ex_row 100 10 50 (Some 999) 900) = Some 50
   \<and> fst (deductCredits ex_env ''u1'' ''keywords'' ''report'' None (ex_db (ex_row 100 10 50 (Some 999) 900)))
       = Inr \<lparr>newBalance = 98, transactionId = Some 1\<rparr>
   \<and> map_option trial_balance
       (user_credits (snd (deductCredits ex_env ''u1'' ''keywords'' ''report'' None
                             (ex_db (ex_row 100 10 50 (Some 999) 900)))) ''u1'')
       = Some (Some 0)
   \<and> (\<exists>rows. credit_transactions (snd (deductCredits ex_env ''u1'' ''keywords'' ''report'' None
                                           (ex_db (ex_row 100 10 50 (Some 999) 900))))
                = credit_transactions (ex_db (ex_row 100 10 50 (Some 999) 900)) @ rows
              \<and> list_all (\<lambda>t. txn_type t = Usage_deduction \<and> pool t \<noteq> Trial) rows)"
proof -
  let ?r = "ex_row 100 10 50 (Some 999) 900"
  let ?res = "\<lparr>newBalance = 98, transactionId = Some 1\<rparr>"
  have h1: "user_credits (ex_db ?r) ''u1'' = Some ?r" by (simp add: ex_db_def)
  have h2: "trial_expires_at ?r = Some 999" by (simp add: ex_row_def)
  have h3: "999 < now ex_env" by (simp add: ex_env_def)
  have h4: "trial_balance ?r = Some 50" by (simp add: ex_row_def)
  have h5: "(0::int) < 50" by simp
  have h6: "getCreditCost ex_env ''keywords'' ''report'' = Inr 12"
    by (simp add: getCreditCost_def ex_env_def)
  have h7: "(0::int) \<le> 12" by simp
  have h8: "fst (deductCredits ex_env ''u1'' ''keywords'' ''report'' None (ex_db ?r)) = Inr ?res"
  proof -
    have f: "failing ex_env User_credits = None" "failing ex_env Credit_transactions = None"
      "now ex_env = 1000"
      by (simp_all add: ex_env_def)
    show ?thesis
      by (simp add: deductCredits_def h6 getBalance_def select_user_credits_def f ex_db_def
          ex_row_def effective_trial_def Let_def log_deduction_def insert_transaction_def
          update_user_credits_def)
  qed
  from deductCredits_purges_expired_trial [OF h1 h2 h3 h4 h5 h6 h7 h8] h4 h8
  show ?thesis by (simp add: list_all_iff)
qed

section \<open>Properties of allocations\<close>

lemma ensureUserCreditsRow_eq:
  assumes "failing e User_credits = None"
  shows "ensureUserCreditsRow e userId s =
           (case user_credits s userId of
              None \<Rightarrow> s\<lparr>user_credits := (user_credits s)(userId \<mapsto> default_row)\<rparr>
            | Some r \<Rightarrow> s)"
  using assms
  by (simp add: ensureUserCreditsRow_def select_user_credits_def insert_user_credits_def
      split: option.splits)

text \<open>
  Claim C4. With the store reachable, let \<open>r\<close> be the user's row once
  \<open>ensureUserCreditsRow\<close> has run (the stored row, or the default row it creates) and
  \<open>alloc = min(amount, max(0, cap - subscription_balance))\<close>. The call returns
  \<open>allocated = alloc\<close>. When \<open>alloc = 0\<close> the store is the one \<open>ensureUserCreditsRow\<close>
  left: no row is updated and no transaction written, and for an account that already had
  a row the store is unchanged altogether. Otherwise \<open>subscription_balance\<close> and
  \<open>lifetime_earned\<close> both rise by exactly \<open>alloc\<close> and exactly one
  \<open>subscription_allocation\<close> row of \<open>+alloc\<close> is appended to the log.
\<close>

theorem allocateSubscriptionCredits_capped:
  assumes "failing e User_credits = None"
      and "failing e Credit_transactions = None"
  shows "let s0 = ensureUserCreditsRow e userId s;
             r = (case user_credits s userId of None \<Rightarrow> default_row | Some r \<Rightarrow> r);
             tot = subscription_balance r + topup_balance r + effective_trial (now e) r;
             alloc = min amt (max 0 (subscription_cap r - subscription_balance r))
         in user_credits s0 userId = Some r
            \<and> credit_transactions s0 = credit_transactions s
            \<and> (user_credits s userId = None \<or> s0 = s)
            \<and> (if alloc = 0 then
                  allocateSubscriptionCredits e userId amt appKey referenceId s =
                    (Inr \<lparr>alloc_newBalance = tot, allocated = 0\<rparr>, s0)
                else
                  allocateSubscriptionCredits e userId amt appKey referenceId s =
                    (Inr \<lparr>alloc_newBalance = tot + alloc, allocated = alloc\<rparr>,
                     s0\<lparr>user_credits := (user_credits s0)(userId \<mapsto>
                           r\<lparr>subscription_balance := subscription_balance r + alloc,
                             lifetime_earned := lifetime_earned r + alloc,
                             last_allocated := Some (now e),
                             updated_at := Some (now e)\<rparr>),
                        credit_transactions := credit_transactions s
                          @ [\<lparr>txn_id = length (credit_transactions s), user_id = userId,
                               amount = alloc, balance_after = tot + alloc, pool = Subscription,
                               txn_type = Subscription_allocation,
                               description = ''Monthly allocation ('' @ appKey @ '')'',
                               app_key = Some appKey, reference_id = referenceId\<rparr>]\<rparr>))"
proof -
  define s0 where "s0 = ensureUserCreditsRow e userId s"
  define r where "r = (case user_credits s userId of None \<Rightarrow> default_row | Some r \<Rightarrow> r)"
  have row: "user_credits s0 userId = Some r"
    by (simp add: s0_def r_def ensureUserCreditsRow_eq [OF assms(1)] split: option.splits)
  have log: "credit_transactions s0 = credit_transactions s"
    by (simp add: s0_def ensureUserCreditsRow_eq [OF assms(1)] split: option.splits)
  have same: "user_credits s userId = None \<or> s0 = s"
    by (simp add: s0_def ensureUserCreditsRow_eq [OF assms(1)] split: option.splits)
  have gb: "getBalance e userId s0 =
           (Inr \<lparr>subscriptionBalance = subscription_balance r,
                 topupBalance = topup_balance r,
                 trialBalance = effective_trial (now e) r,
                 total = subscription_balance r + topup_balance r + effective_trial (now e) r,
                 cap = subscription_cap r,
                 lifetimeEarned = lifetime_earned r,
                 lifetimeSpent = lifetime_spent r\<rparr>, s0)"
    using getBalance_row [OF assms(1) row] .
  have run: "allocateSubscriptionCredits e userId amt appKey referenceId s =
      (let tot = subscription_balance r + topup_balance r + effective_trial (now e) r;
           alloc = min amt (max 0 (subscription_cap r - subscription_balance r))
       in if alloc = 0 then (Inr \<lparr>alloc_newBalance = tot, allocated = 0\<rparr>, s0)
          else (Inr \<lparr>alloc_newBalance = tot + alloc, allocated = alloc\<rparr>,
                     s0\<lparr>user_credits := (user_credits s0)(userId \<mapsto>
                           r\<lparr>subscription_balance := subscription_balance r + alloc,
                             lifetime_earned := lifetime_earned r + alloc,
                             last_allocated := Some (now e),
                             updated_at := Some (now e)\<rparr>),
                        credit_transactions := credit_transactions s
                          @ [\<lparr>txn_id = length (credit_transactions s), user_id = userId,
                               amount = alloc, balance_after = tot + alloc, pool = Subscription,
                               txn_type = Subscription_allocation,
                               description = ''Monthly allocation ('' @ appKey @ '')'',
                               app_key = Some appKey, reference_id = referenceId\<rparr>]\<rparr>))"
    unfolding allocateSubscriptionCredits_def s0_def [symmetric]
    using assms row log
    by (simp add: gb Let_def update_user_credits_def insert_transaction_def)
  show ?thesis
    unfolding s0_def [symmetric] r_def [symmetric] run
    using row log same by (simp add: Let_def)
qed

theorem allocateSubscriptionCredits_capped_witness:
  "allocateSubscriptionCredits ex_env ''u1'' 300 ''keywords'' (Some ''in_1'') (ex_db (ex_row 850 0 0 None 900)) =
     (Inr \<lparr>alloc_newBalance = 900, allocated = 50\<rparr>,
      \<lparr>user_credits = [''u1'' \<mapsto>
           \<lparr>subscription_balance = 900, topup_balance = 0, trial_balance = Some 0,
            trial_expires_at = None, subscription_cap = 900, lifetime_earned = 50,
            lifetime_spent = 0, last_allocated = Some 1000, updated_at = Some 1000\<rparr>],
       credit_transactions =
         [\<lparr>txn_id = 0, user_id = ''u1'', amount = 50, balance_after = 900, pool = Subscription,
           txn_type = Subscription_allocation, description = ''Monthly allocation (keywords)'',
           app_key = Some ''keywords'', reference_id = Some ''in_1''\<rparr>],
       stripe_events = Map.empty\<rparr>)
   \<and> allocateSubscriptionCredits ex_env ''u1'' 300 ''keywords'' (Some ''in_2'') (ex_db (ex_row 900 0 0 None 900)) =
     (Inr \<lparr>alloc_newBalance = 900, allocated = 0\<rparr>, ex_db (ex_row 900 0 0 None 900))"
proof -
  have h1: "failing ex_env User_credits = None" by (simp add: ex_env_def)
  have h2: "failing ex_env Credit_transactions = None" by (simp add: ex_env_def)
  have n: "now ex_env = 1000" by (simp add: ex_env_def)
  have a: "allocateSubscriptionCredits ex_env ''u1'' 300 ''keywords'' (Some ''in_1'')
             (ex_db (ex_row 850 0 0 None 900)) =
     (Inr \<lparr>alloc_newBalance = 900, allocated = 50\<rparr>,
      \<lparr>user_credits = [''u1'' \<mapsto>
           \<lparr>subscription_balance = 900, topup_balance = 0, trial_balance = Some 0,
            trial_expires_at = None, subscription_cap = 900, lifetime_earned = 50,
            lifetime_spent = 0, last_allocated = Some 1000, updated_at = Some 1000\<rparr>],
       credit_transactions =
         [\<lparr>txn_id = 0, user_id = ''u1'', amount = 50, balance_after = 900, pool = Subscription,
           txn_type = Subscription_allocation, description = ''Monthly allocation (keywords)'',
           app_key = Some ''keywords'', reference_id = Some ''in_1''\<rparr>],
       stripe_events = Map.empty\<rparr>)"
    using allocateSubscriptionCredits_capped [OF h1 h2, of "''u1''" "ex_db (ex_row 850 0 0 None 900)"
        300 "''keywords''" "Some ''in_1''"]
    by (simp add: Let_def ex_db_def ex_row_def n effective_trial_def)
  have b: "allocateSubscriptionCredits ex_env ''u1'' 300 ''keywords'' (Some ''in_2'')
             (ex_db (ex_row 900 0 0 None 900)) =
     (Inr \<lparr>alloc_newBalance = 900, allocated = 0\<rparr>, ex_db (ex_row 900 0 0 None 900))"
    using allocateSubscriptionCredits_capped [OF h1 h2, of "''u1''" "ex_db (ex_row 900 0 0 None 900)"
        300 "''keywords''" "Some ''in_2''"]
    by (simp add: Let_def ex_db_def ex_row_def n effective_trial_def)
  from a b show ?thesis by simp
qed

section \<open>Properties of merging trial credits\<close>

lemma mergeTrialCredits_nothing:
  assumes "stored_trial (data (select_user_credits e s userId)) = 0"
  shows "mergeTrialCredits e userId appKey s = (Inr 0, s)"
  using assms by (simp add: mergeTrialCredits_def Let_def)

lemma mergeTrialCredits_merge:
  assumes uc: "failing e User_credits = None"
      and ct: "failing e Credit_transactions = None"
      and row: "user_credits s userId = Some r"
      and stored: "trial_balance r = Some tb" "tb \<noteq> 0"
      and m: "merged = min tb (max 0 (subscription_cap r - subscription_balance r))"
  shows "mergeTrialCredits e userId appKey s =
      (Inr merged,
       s\<lparr>user_credits := (user_credits s)(userId \<mapsto>
             r\<lparr>trial_balance := Some 0,
               trial_expires_at := None,
               subscription_balance := subscription_balance r + merged,
               updated_at := Some (now e)\<rparr>),
         credit_transactions := credit_transactions s
           @ (if 0 < merged then
                [\<lparr>txn_id = length (credit_transactions s), user_id = userId, amount = merged,
                  balance_after = subscription_balance r + merged + topup_balance r,
                  pool = Subscription, txn_type = Trial_merge,
                  description = ''Trial credits merged on conversion ('' @ appKey @ '')'',
                  app_key = Some appKey, reference_id = None\<rparr>]
              else [])
           @ (if 0 < tb - merged then
                [\<lparr>txn_id = length (credit_transactions s) + (if 0 < merged then 1 else 0),
                  user_id = userId, amount = - (tb - merged),
                  balance_after = subscription_balance r + merged + topup_balance r,
                  pool = Trial, txn_type = Trial_merge_overflow,
                  description = ''Trial credits lost on merge (cap reached) ('' @ appKey @ '')'',
                  app_key = Some appKey, reference_id = None\<rparr>]
              else [])\<rparr>)"
proof -
  let ?after = "subscription_balance r + merged + topup_balance r"
  let ?merge_rows =
    "if 0 < merged then
       [\<lparr>txn_id = length (credit_transactions s), user_id = userId, amount = merged,
         balance_after = ?after, pool = Subscription, txn_type = Trial_merge,
         description = ''Trial credits merged on conversion ('' @ appKey @ '')'',
         app_key = Some appKey, reference_id = None\<rparr>]
     else []"
  let ?overflow_rows =
    "if 0 < tb - merged then
       [\<lparr>txn_id = length (credit_transactions s) + (if 0 < merged then 1 else 0),
         user_id = userId, amount = - (tb - merged),
         balance_after = ?after, pool = Trial, txn_type = Trial_merge_overflow,
         description = ''Trial credits lost on merge (cap reached) ('' @ appKey @ '')'',
         app_key = Some appKey, reference_id = None\<rparr>]
     else []"
  define r' where "r' = r\<lparr>trial_balance := Some 0, trial_expires_at := None,
                           subscription_balance := subscription_balance r + merged,
                           updated_at := Some (now e)\<rparr>"
  define s1 where "s1 = s\<lparr>user_credits := (user_credits s)(userId \<mapsto> r')\<rparr>"
  define s2 where "s2 = s1\<lparr>credit_transactions := credit_transactions s @ ?merge_rows\<rparr>"
  define s3 where "s3 = s2\<lparr>credit_transactions := credit_transactions s2 @ ?overflow_rows\<rparr>"
  have sel: "data (select_user_credits e s userId) = Some r"
    using uc row by (simp add: select_user_credits_def)
  have st: "stored_trial (Some r) = tb"
    using stored by (simp add: stored_trial_def)
  have fold: "min tb (max 0 (subscription_cap r - subscription_balance r)) = merged"
    using m by simp
  have upd: "update_user_credits e userId
               (\<lambda>x. x\<lparr>trial_balance := Some 0, trial_expires_at := None,
                       subscription_balance := subscription_balance r + merged,
                       updated_at := Some (now e)\<rparr>) s = s1"
    using uc row by (simp add: update_user_credits_def s1_def r'_def)
  have tot: "subscription_balance r' + topup_balance r' + effective_trial (now e) r' = ?after"
    by (simp add: r'_def effective_trial_def)
  have gb: "getBalance e userId x =
           (Inr \<lparr>subscriptionBalance = subscription_balance r',
                 topupBalance = topup_balance r',
                 trialBalance = effective_trial (now e) r',
                 total = ?after,
                 cap = subscription_cap r',
                 lifetimeEarned = lifetime_earned r',
                 lifetimeSpent = lifetime_spent r'\<rparr>, x)"
    if "user_credits x userId = Some r'" for x
    using getBalance_row [OF uc that] tot by simp
  have s1_row: "user_credits s1 userId = Some r'" by (simp add: s1_def)
  have s1_log: "credit_transactions s1 = credit_transactions s" by (simp add: s1_def)
  have s2_row: "user_credits s2 userId = Some r'" by (simp add: s2_def s1_row)
  have s2_len: "length (credit_transactions s2)
                  = length (credit_transactions s) + (if 0 < merged then 1 else 0)"
    by (simp add: s2_def)
  have lm: "log_merge e userId appKey merged s1 = (Inr (), s2)"
    using ct
    by (simp add: log_merge_def gb [OF s1_row] insert_transaction_def Let_def s1_log s2_def)
  have lo: "log_overflow e userId appKey (tb - merged) s2 = (Inr (), s3)"
    using ct
    by (simp add: log_overflow_def gb [OF s2_row] insert_transaction_def Let_def s2_len s3_def)
  have "mergeTrialCredits e userId appKey s = (Inr merged, s3)"
    using stored(2)
    by (simp add: mergeTrialCredits_def sel st Let_def fold upd lm lo)
  also have "s3 = s\<lparr>user_credits := (user_credits s)(userId \<mapsto> r'),
                    credit_transactions := credit_transactions s @ ?merge_rows @ ?overflow_rows\<rparr>"
    by (simp add: s3_def s2_def s1_def)
  finally show ?thesis by (simp add: r'_def)
qed


text \<open>
  Claim C5. With the store reachable: when the stored trial balance is 0 (or there is no
  row) \<open>mergeTrialCredits\<close> returns \<open>merged = 0\<close> and leaves the store untouched. When
  the row stores a trial balance \<open>tb\<close> other than 0 (in particular \<open>tb > 0\<close>), it returns
  \<open>merged = min(tb, max(0, cap - subscription_balance))\<close>; the row's \<open>trial_balance\<close>
  becomes 0 and \<open>trial_expires_at\<close> is cleared, \<open>subscription_balance\<close> rises by
  \<open>merged\<close>; the log grows by one \<open>trial_merge\<close> row of \<open>+merged\<close> exactly when
  \<open>merged > 0\<close>, followed by one \<open>trial_merge_overflow\<close> row of \<open>-(tb - merged)\<close>
  exactly when \<open>tb > merged\<close>, and by nothing else.
\<close>

theorem mergeTrialCredits_capped:
  assumes "failing e User_credits = None"
      and "failing e Credit_transactions = None"
  shows "(stored_trial (user_credits s userId) = 0 \<longrightarrow>
            mergeTrialCredits e userId appKey s = (Inr 0, s))
         \<and> (\<forall>r tb. user_credits s userId = Some r \<longrightarrow> trial_balance r = Some tb \<longrightarrow> tb \<noteq> 0 \<longrightarrow>
              (let merged = min tb (max 0 (subscription_cap r - subscription_balance r));
                   after = subscription_balance r + merged + topup_balance r
               in mergeTrialCredits e userId appKey s =
                    (Inr merged,
                     s\<lparr>user_credits := (user_credits s)(userId \<mapsto>
                           r\<lparr>trial_balance := Some 0,
                             trial_expires_at := None,
                             subscription_balance := subscription_balance r + merged,
                             updated_at := Some (now e)\<rparr>),
                       credit_transactions := credit_transactions s
                         @ (if 0 < merged then
                              [\<lparr>txn_id = length (credit_transactions s), user_id = userId,
                                amount = merged, balance_after = after,
                                pool = Subscription, txn_type = Trial_merge,
                                description = ''Trial credits merged on conversion ('' @ appKey @ '')'',
                                app_key = Some appKey, reference_id = None\<rparr>]
                            else [])
                         @ (if merged < tb then
                              [\<lparr>txn_id = length (credit_transactions s) + (if 0 < merged then 1 else 0),
                                user_id = userId, amount = - (tb - merged), balance_after = after,
                                pool = Trial, txn_type = Trial_merge_overflow,
                                description = ''Trial credits lost on merge (cap reached) ('' @ appKey @ '')'',
                                app_key = Some appKey, reference_id = None\<rparr>]
                            else [])\<rparr>)))"
proof (intro conjI allI impI)
  assume "stored_trial (user_credits s userId) = 0"
  then have "stored_trial (data (select_user_credits e s userId)) = 0"
    using assms(1) by (simp add: select_user_credits_def)
  then show "mergeTrialCredits e userId appKey s = (Inr 0, s)"
    by (rule mergeTrialCredits_nothing)
next
  fix r tb
  assume row: "user_credits s userId = Some r" and tb: "trial_balance r = Some tb" "tb \<noteq> 0"
  show "let merged = min tb (max 0 (subscription_cap r - subscription_balance r));
            after = subscription_balance r + merged + topup_balance r
        in mergeTrialCredits e userId appKey s =
             (Inr merged,
              s\<lparr>user_credits := (user_credits s)(userId \<mapsto>
                    r\<lparr>trial_balance := Some 0,
                      trial_expires_at := None,
                      subscription_balance := subscription_balance r + merged,
                      updated_at := Some (now e)\<rparr>),
                credit_transactions := credit_transactions s
                  @ (if 0 < merged then
                       [\<lparr>txn_id = length (credit_transactions s), user_id = userId,
                         amount = merged, balance_after = after,
                         pool = Subscription, txn_type = Trial_merge,
                         description = ''Trial credits merged on conversion ('' @ appKey @ '')'',
                         app_key = Some appKey, reference_id = None\<rparr>]
                     else [])
                  @ (if merged < tb then
                       [\<lparr>txn_id = length (credit_transactions s) + (if 0 < merged then 1 else 0),
                         user_id = userId, amount = - (tb - merged), balance_after = after,
                         pool = Trial, txn_type = Trial_merge_overflow,
                         description = ''Trial credits lost on merge (cap reached) ('' @ appKey @ '')'',
                         app_key = Some appKey, reference_id = None\<rparr>]
                     else [])\<rparr>)"
    using mergeTrialCredits_merge [OF assms row tb refl, of appKey]
    by (simp add: Let_def)
qed

theorem mergeTrialCredits_capped_witness:
  "mergeTrialCredits ex_env ''u1'' ''keywords'' (ex_db (ex_row 880 0 40 None 900)) =
     (Inr 20,
      \<lparr>user_credits = [''u1'' \<mapsto>
           \<lparr>subscription_balance = 900, topup_balance = 0, trial_balance = Some 0,
            trial_expires_at = None, subscription_cap = 900, lifetime_earned = 0,
            lifetime_spent = 0, last_allocated = None, updated_at = Some 1000\<rparr>],
       credit_transactions =
         [\<lparr>txn_id = 0, user_id = ''u1'', amount = 20, balance_after = 900, pool = Subscription,
           txn_type = Trial_merge, description = ''Trial credits merged on conversion (keywords)'',
           app_key = Some ''keywords'', reference_id = None\<rparr>,
          \<lparr>txn_id = 1, user_id = ''u1'', amount = - 20, balance_after = 900, pool = Trial,
           txn_type = Trial_merge_overflow,
           description = ''Trial credits lost on merge (cap reached) (keywords)'',
           app_key = Some ''keywords'', reference_id = None\<rparr>],
       stripe_events = Map.empty\<rparr>)
   \<and> mergeTrialCredits ex_env ''u1'' ''keywords'' (ex_db (ex_row 880 0 0 None 900)) =
       (Inr 0, ex_db (ex_row 880 0 0 None 900))"
proof -
  let ?r = "ex_row 880 0 40 None 900"
  let ?z = "ex_row 880 0 0 None 900"
  have h1: "failing ex_env User_credits = None" by (simp add: ex_env_def)
  have h2: "failing ex_env Credit_transactions = None" by (simp add: ex_env_def)
  have n: "now ex_env = 1000" by (simp add: ex_env_def)
  have row: "user_credits (ex_db ?r) ''u1'' = Some ?r" by (simp add: ex_db_def)
  have tb: "trial_balance ?r = Some 40" "(40::int) \<noteq> 0" by (simp_all add: ex_row_def)
  have z: "stored_trial (user_credits (ex_db ?z) ''u1'') = 0"
    by (simp add: stored_trial_def ex_db_def ex_row_def)
  from mergeTrialCredits_capped [OF h1 h2, of "ex_db ?r" "''u1''" "''keywords''"] row tb
  have a: "let merged = min 40 (max 0 (subscription_cap ?r - subscription_balance ?r));
               after = subscription_balance ?r + merged + topup_balance ?r
           in mergeTrialCredits ex_env ''u1'' ''keywords'' (ex_db ?r) =
                (Inr merged,
                 (ex_db ?r)\<lparr>user_credits := (user_credits (ex_db ?r))(''u1'' \<mapsto>
                       ?r\<lparr>trial_balance := Some 0,
                          trial_expires_at := None,
                          subscription_balance := subscription_balance ?r + merged,
                          updated_at := Some (now ex_env)\<rparr>),
                   credit_transactions := credit_transactions (ex_db ?r)
                     @ (if 0 < merged then
                          [\<lparr>txn_id = length (credit_transactions (ex_db ?r)), user_id = ''u1'',
                            amount = merged, balance_after = after,
                            pool = Subscription, txn_type = Trial_merge,
                            description = ''Trial credits merged on conversion ('' @ ''keywords'' @ '')'',
                            app_key = Some ''keywords'', reference_id = None\<rparr>]
                        else [])
                     @ (if merged < 40 then
                          [\<lparr>txn_id = length (credit_transactions (ex_db ?r)) + (if 0 < merged then 1 else 0),
                            user_id = ''u1'', amount = - (40 - merged), balance_after = after,
                            pool = Trial, txn_type = Trial_merge_overflow,
                            description = ''Trial credits lost on merge (cap reached) ('' @ ''keywords'' @ '')'',
                            app_key = Some ''keywords'', reference_id = None\<rparr>]
                        else [])\<rparr>)"
    by blast
  from mergeTrialCredits_capped [OF h1 h2, of "ex_db ?z" "''u1''" "''keywords''"] z
  have b: "mergeTrialCredits ex_env ''u1'' ''keywords'' (ex_db ?z) = (Inr 0, ex_db ?z)"
    by blast
  from a b show ?thesis
    by (simp add: Let_def ex_db_def ex_row_def n)
qed

text \<open>
  Claim C10. \<open>mergeTrialCredits\<close> reads the stored \<open>trial_balance\<close> and never looks at
  \<open>trial_expires_at\<close>: for a row whose trial has expired by the clock (so that
  \<open>getBalance\<close> reports trial balance 0) but which still stores \<open>tb > 0\<close>, it merges
  \<open>min(tb, max(0, cap - subscription_balance))\<close> credits into the subscription pool; and
  what it returns is the same whatever \<open>trial_expires_at\<close> the row holds.
\<close>

theorem mergeTrialCredits_ignores_expiry:
  assumes uc: "failing e User_credits = None"
      and ct: "failing e Credit_transactions = None"
      and row: "user_credits s userId = Some r"
      and ex: "trial_expires_at r = Some ex" "ex < now e"
      and stored: "trial_balance r = Some tb" "0 < tb"
  shows "fst (getBalance e userId s) =
           Inr \<lparr>subscriptionBalance = subscription_balance r, topupBalance = topup_balance r,
                 trialBalance = 0, total = subscription_balance r + topup_balance r,
                 cap = subscription_cap r, lifetimeEarned = lifetime_earned r,
                 lifetimeSpent = lifetime_spent r\<rparr>
         \<and> fst (mergeTrialCredits e userId appKey s) =
             Inr (min tb (max 0 (subscription_cap r - subscription_balance r)))
         \<and> map_option subscription_balance
             (user_credits (snd (mergeTrialCredits e userId appKey s)) userId) =
             Some (subscription_balance r + min tb (max 0 (subscription_cap r - subscription_balance r)))
         \<and> fst (mergeTrialCredits e userId appKey
                  (s\<lparr>user_credits := (user_credits s)(userId \<mapsto> r\<lparr>trial_expires_at := x\<rparr>)\<rparr>)) =
             fst (mergeTrialCredits e userId appKey s)"
proof -
  have nz: "tb \<noteq> 0" using stored(2) by simp
  have tr: "effective_trial (now e) r = 0" using ex by (simp add: effective_trial_def)
  have a: "fst (getBalance e userId s) =
           Inr \<lparr>subscriptionBalance = subscription_balance r, topupBalance = topup_balance r,
                 trialBalance = 0, total = subscription_balance r + topup_balance r,
                 cap = subscription_cap r, lifetimeEarned = lifetime_earned r,
                 lifetimeSpent = lifetime_spent r\<rparr>"
    by (simp add: getBalance_row [OF uc row] tr)
  note m = mergeTrialCredits_merge [OF uc ct row stored(1) nz refl, of appKey]
  let ?s' = "s\<lparr>user_credits := (user_credits s)(userId \<mapsto> r\<lparr>trial_expires_at := x\<rparr>)\<rparr>"
  have row': "user_credits ?s' userId = Some (r\<lparr>trial_expires_at := x\<rparr>)" by simp
  have tb': "trial_balance (r\<lparr>trial_expires_at := x\<rparr>) = Some tb" using stored(1) by simp
  note m' = mergeTrialCredits_merge [OF uc ct row' tb' nz refl, of appKey]
  show ?thesis
    using a by (simp add: m m')
qed

theorem mergeTrialCredits_ignores_expiry_witness:
  "fst (getBalance ex_env ''u1'' (ex_db (ex_row 880 0 40 (Some 999) 900))) =
     Inr \<lparr>subscriptionBalance = 880, topupBalance = 0, trialBalance = 0, total = 880,
           cap = 900, lifetimeEarned = 0, lifetimeSpent = 0\<rparr>
   \<and> fst (mergeTrialCredits ex_env ''u1'' ''keywords'' (ex_db (ex_row 880 0 40 (Some 999) 900))) = Inr 20
   \<and> map_option subscription_balance
        (user_credits (snd (mergeTrialCredits ex_env ''u1'' ''keywords''
                              (ex_db (ex_row 880 0 40 (Some 999) 900)))) ''u1'') = Some 900"
proof -
  let ?r = "ex_row 880 0 40 (Some 999) 900"
  have h1: "failing ex_env User_credits = None" by (simp add: ex_env_def)
  have h2: "failing ex_env Credit_transactions = None" by (simp add: ex_env_def)
  have h3: "user_credits (ex_db ?r) ''u1'' = Some ?r" by (simp add: ex_db_def)
  have h4: "trial_expires_at ?r = Some 999" by (simp add: ex_row_def)
  have h5: "999 < now ex_env" by (simp add: ex_env_def)
  have h6: "trial_balance ?r = Some 40" by (simp add: ex_row_def)
  have h7: "(0::int) < 40" by simp
  from mergeTrialCredits_ignores_expiry [OF h1 h2 h3 h4 h5 h6 h7, of "''keywords''" None]
  show ?thesis by (simp add: ex_row_def)
qed

section \<open>Properties of cap recalculation\<close>

lemma sum_caps_eq: "sum_caps e subs totalCap = totalCap + sum_list (map (cap_contribution e) subs)"
  by (induction subs arbitrary: totalCap) simp_all

text \<open>
  Claim C8. When the read of the subscription records fails, \<open>recalculateSubscriptionCap\<close>
  returns 900, does not throw and leaves the store untouched. Otherwise, with \<open>subs\<close> the
  user's records whose status is active, trialing or past_due, the new cap is 900 when
  \<open>subs\<close> is empty and else the sum over \<open>subs\<close> of each one's contribution (the
  \<open>creditCap\<close> of the plan found by price id, else of the plan found by app key, else
  900); that cap is returned, and written with \<open>updated_at\<close> to the user's row (an absent
  row stays absent).
\<close>

theorem recalculateSubscriptionCap_sum:
  "(\<forall>msg. failing e App_subscriptions = Some msg \<longrightarrow>
       recalculateSubscriptionCap e userId s = (Inr 900, s))
   \<and> (failing e App_subscriptions = None \<longrightarrow>
       (let subs = filter (\<lambda>sub. sub_user_id sub = userId
                                \<and> (status sub = ''active'' \<or> status sub = ''trialing''
                                    \<or> status sub = ''past_due''))
                     (app_subscriptions e);
            newCap = (if subs = [] then 900
                      else (\<Sum>sub\<leftarrow>subs.
                              case (case stripe_price_id sub of
                                      None \<Rightarrow> None
                                    | Some pid \<Rightarrow> if pid = [] then None
                                                  else findSubscriptionByPriceId e pid) of
                                Some p \<Rightarrow> creditCap p
                              | None \<Rightarrow> (case findSubscriptionPlan e (sub_app_key sub) of
                                          Some p \<Rightarrow> creditCap p
                                        | None \<Rightarrow> 900)))
        in fst (recalculateSubscriptionCap e userId s) = Inr newCap
           \<and> (failing e User_credits = None \<longrightarrow>
                snd (recalculateSubscriptionCap e userId s) =
                  (case user_credits s userId of
                     None \<Rightarrow> s
                   | Some r \<Rightarrow>
                       s\<lparr>user_credits := (user_credits s)(userId \<mapsto>
                            r\<lparr>subscription_cap := newCap, updated_at := Some (now e)\<rparr>)\<rparr>))))"
proof (intro conjI allI impI)
  fix msg
  assume "failing e App_subscriptions = Some msg"
  then show "recalculateSubscriptionCap e userId s = (Inr 900, s)"
    by (simp add: recalculateSubscriptionCap_def select_app_subscriptions_def)
next
  assume ok: "failing e App_subscriptions = None"
  define subs where
    "subs = filter (\<lambda>sub. sub_user_id sub = userId
                          \<and> (status sub = ''active'' \<or> status sub = ''trialing''
                              \<or> status sub = ''past_due''))
              (app_subscriptions e)"
  have sel: "select_app_subscriptions e userId = \<lparr>data = Some subs, error = None\<rparr>"
    using ok by (simp add: select_app_subscriptions_def subs_def)
  have contrib: "cap_contribution e = (\<lambda>sub.
                   case (case stripe_price_id sub of
                           None \<Rightarrow> None
                         | Some pid \<Rightarrow> if pid = [] then None
                                       else findSubscriptionByPriceId e pid) of
                     Some p \<Rightarrow> creditCap p
                   | None \<Rightarrow> (case findSubscriptionPlan e (sub_app_key sub) of
                               Some p \<Rightarrow> creditCap p
                             | None \<Rightarrow> 900))"
    by (rule ext) (simp add: cap_contribution_def Let_def)
  have run: "recalculateSubscriptionCap e userId s =
          (let newCap = (if subs = [] then 900 else sum_list (map (cap_contribution e) subs))
           in (Inr newCap,
               update_user_credits e userId
                 (\<lambda>r. r\<lparr>subscription_cap := newCap, updated_at := Some (now e)\<rparr>) s))"
    by (simp add: recalculateSubscriptionCap_def sel Let_def sum_caps_eq)
  show "let subs = filter (\<lambda>sub. sub_user_id sub = userId
                                \<and> (status sub = ''active'' \<or> status sub = ''trialing''
                                    \<or> status sub = ''past_due''))
                     (app_subscriptions e);
            newCap = (if subs = [] then 900
                      else (\<Sum>sub\<leftarrow>subs.
                              case (case stripe_price_id sub of
                                      None \<Rightarrow> None
                                    | Some pid \<Rightarrow> if pid = [] then None
                                                  else findSubscriptionByPriceId e pid) of
                                Some p \<Rightarrow> creditCap p
                              | None \<Rightarrow> (case findSubscriptionPlan e (sub_app_key sub) of
                                          Some p \<Rightarrow> creditCap p
                                        | None \<Rightarrow> 900)))
        in fst (recalculateSubscriptionCap e userId s) = Inr newCap
           \<and> (failing e User_credits = None \<longrightarrow>
                snd (recalculateSubscriptionCap e userId s) =
                  (case user_credits s userId of
                     None \<Rightarrow> s
                   | Some r \<Rightarrow>
                       s\<lparr>user_credits := (user_credits s)(userId \<mapsto>
                            r\<lparr>subscription_cap := newCap, updated_at := Some (now e)\<rparr>)\<rparr>))"
    unfolding subs_def [symmetric] run contrib [symmetric]
    by (simp add: Let_def update_user_credits_def split: option.splits)
qed


theorem recalculateSubscriptionCap_sum_witness:
  "recalculateSubscriptionCap (ex_env_subs (\<lambda>t. None)) ''u1'' (ex_db (ex_row 100 0 0 None 900)) =
     (Inr 5100,
      \<lparr>user_credits = [''u1'' \<mapsto>
           \<lparr>subscription_balance = 100, topup_balance = 0, trial_balance = Some 0,
            trial_expires_at = None, subscription_cap = 5100, lifetime_earned = 0,
            lifetime_spent = 0, last_allocated = None, updated_at = Some 2000\<rparr>],
       credit_transactions = [], stripe_events = Map.empty\<rparr>)
   \<and> recalculateSubscriptionCap (ex_env_subs (\<lambda>t. None)) ''u3'' (ex_db (ex_row 100 0 0 None 900)) =
     (Inr 900, ex_db (ex_row 100 0 0 None 900))
   \<and> recalculateSubscriptionCap
       (ex_env_subs (\<lambda>t. if t = App_subscriptions then Some ''timeout'' else None)) ''u1''
       (ex_db (ex_row 100 0 0 None 1800)) =
     (Inr 900, ex_db (ex_row 100 0 0 None 1800))"
proof -
  let ?ok = "ex_env_subs (\<lambda>t. None)"
  let ?down = "ex_env_subs (\<lambda>t. if t = App_subscriptions then Some ''timeout'' else None)"
  let ?s = "ex_db (ex_row 100 0 0 None 900)"
  have f: "failing ?ok App_subscriptions = None" "failing ?ok User_credits = None"
    by (simp_all add: ex_env_subs_def)
  have d: "failing ?down App_subscriptions = Some ''timeout''"
    by (simp add: ex_env_subs_def)
  have a1: "fst (recalculateSubscriptionCap ?ok ''u1'' ?s) = Inr 5100"
    using recalculateSubscriptionCap_sum [of ?ok "''u1''" ?s] f
    by (simp add: Let_def ex_env_subs_def ex_subs_def)
  have a2: "snd (recalculateSubscriptionCap ?ok ''u1'' ?s) =
      \<lparr>user_credits = [''u1'' \<mapsto>
           \<lparr>subscription_balance = 100, topup_balance = 0, trial_balance = Some 0,
            trial_expires_at = None, subscription_cap = 5100, lifetime_earned = 0,
            lifetime_spent = 0, last_allocated = None, updated_at = Some 2000\<rparr>],
       credit_transactions = [], stripe_events = Map.empty\<rparr>"
    using recalculateSubscriptionCap_sum [of ?ok "''u1''" ?s] f
    by (simp add: Let_def ex_env_subs_def ex_subs_def ex_db_def ex_row_def)
  have b1: "fst (recalculateSubscriptionCap ?ok ''u3'' ?s) = Inr 900"
    using recalculateSubscriptionCap_sum [of ?ok "''u3''" ?s] f
    by (simp add: Let_def ex_env_subs_def ex_subs_def)
  have b2: "snd (recalculateSubscriptionCap ?ok ''u3'' ?s) = ?s"
    using recalculateSubscriptionCap_sum [of ?ok "''u3''" ?s] f
    by (simp add: Let_def ex_env_subs_def ex_subs_def ex_db_def)
  have c: "recalculateSubscriptionCap ?down ''u1'' (ex_db (ex_row 100 0 0 None 1800)) =
             (Inr 900, ex_db (ex_row 100 0 0 None 1800))"
    using recalculateSubscriptionCap_sum [of ?down "''u1''" "ex_db (ex_row 100 0 0 None 1800)"] d
    by blast
  from a1 a2 b1 b2 c show ?thesis
    by (simp add: prod_eq_iff)
qed

section \<open>The cap invariant\<close>

lemma within_cap_cong:
  assumes "user_credits s' u = user_credits s u"
  shows "within_cap s' u = within_cap s u"
  using assms by (simp add: within_cap_def)

lemma within_cap_update:
  assumes "within_cap s u"
      and "\<And>r. failing e User_credits = None \<Longrightarrow> v = u \<Longrightarrow> user_credits s u = Some r \<Longrightarrow>
             subscription_balance r \<le> subscription_cap r \<Longrightarrow>
             subscription_balance (f r) \<le> subscription_cap (f r)"
  shows "within_cap (update_user_credits e v f s) u"
  using assms
  by (auto simp add: within_cap_def update_user_credits_def split: option.splits)

lemma within_cap_insert_transaction:
  "within_cap (snd (insert_transaction e userId amt after p ty descr app ref s)) u = within_cap s u"
  by (rule within_cap_cong) (simp add: insert_transaction_def Let_def split: option.splits)

lemma within_cap_ensure:
  assumes "within_cap s u"
  shows "within_cap (ensureUserCreditsRow e v s) u"
  using assms
  by (auto simp add: within_cap_def ensureUserCreditsRow_def select_user_credits_def
      insert_user_credits_def default_row_def split: option.splits)

lemma getBalance_fields:
  assumes "getBalance e v s = (Inr b, s')" and "user_credits s v = Some r"
  shows "subscriptionBalance b = subscription_balance r" and "cap b = subscription_cap r"
    and "failing e User_credits = None"
  using assms
  by (auto simp add: getBalance_def select_user_credits_def Let_def split: option.splits)

lemma within_cap_log_deduction:
  "within_cap (snd (log_deduction e userId appKey operation referenceId p deducted after st)) u
     = within_cap (snd st) u"
  by (rule within_cap_cong) (simp add: log_deduction_user_credits)

lemma deductCredits_within_cap:
  assumes "within_cap s u"
  shows "within_cap (snd (deductCredits e v appKey operation referenceId s)) u"
proof (cases "getCreditCost e appKey operation")
  case (Inl err)
  with assms show ?thesis by (simp add: deductCredits_def)
next
  case (Inr c)
  obtain rb where gb: "getBalance e v s = (rb, s)"
    by (metis getBalance_snd prod.collapse)
  show ?thesis
  proof (cases rb)
    case (Inl err)
    with Inr gb assms show ?thesis by (simp add: deductCredits_def)
  next
    case b: (Inr balance)
    show ?thesis
    proof (cases "total balance < c")
      case True
      with Inr gb b assms show ?thesis by (simp add: deductCredits_def)
    next
      case False
      let ?ft = "min c (trialBalance balance)"
      let ?fp = "min (c - ?ft) (topupBalance balance)"
      have "within_cap
              (update_user_credits e v
                 (\<lambda>r. r\<lparr>trial_balance := Some (trialBalance balance - ?ft),
                         topup_balance := topupBalance balance - ?fp,
                         subscription_balance := subscriptionBalance balance - (c - ?ft - ?fp),
                         lifetime_spent := lifetimeSpent balance + c,
                         updated_at := Some (now e)\<rparr>) s) u"
      proof (rule within_cap_update [OF assms])
        fix r
        assume "v = u" and row: "user_credits s u = Some r"
          and le: "subscription_balance r \<le> subscription_cap r"
        with gb b have "subscriptionBalance balance = subscription_balance r"
          using getBalance_fields(1) by blast
        with le show "subscription_balance
                  (r\<lparr>trial_balance := Some (trialBalance balance - ?ft),
                     topup_balance := topupBalance balance - ?fp,
                     subscription_balance := subscriptionBalance balance - (c - ?ft - ?fp),
                     lifetime_spent := lifetimeSpent balance + c,
                     updated_at := Some (now e)\<rparr>)
                \<le> subscription_cap
                  (r\<lparr>trial_balance := Some (trialBalance balance - ?ft),
                     topup_balance := topupBalance balance - ?fp,
                     subscription_balance := subscriptionBalance balance - (c - ?ft - ?fp),
                     lifetime_spent := lifetimeSpent balance + c,
                     updated_at := Some (now e)\<rparr>)"
          by simp
      qed
      with Inr gb b False show ?thesis
        by (simp add: deductCredits_def Let_def within_cap_log_deduction)
    qed
  qed
qed

lemma allocateSubscriptionCredits_within_cap:
  assumes "within_cap s u"
  shows "within_cap (snd (allocateSubscriptionCredits e v amt appKey referenceId s)) u"
proof -
  define s0 where "s0 = ensureUserCreditsRow e v s"
  have w0: "within_cap s0 u" unfolding s0_def using assms by (rule within_cap_ensure)
  obtain rb where gb: "getBalance e v s0 = (rb, s0)"
    by (metis getBalance_snd prod.collapse)
  show ?thesis
  proof (cases rb)
    case (Inl err)
    with gb w0 show ?thesis
      by (simp add: allocateSubscriptionCredits_def s0_def [symmetric])
  next
    case b: (Inr balance)
    let ?alloc = "min amt (max 0 (cap balance - subscriptionBalance balance))"
    have "within_cap
            (update_user_credits e v
               (\<lambda>r. r\<lparr>subscription_balance := subscriptionBalance balance + ?alloc,
                       lifetime_earned := lifetimeEarned balance + ?alloc,
                       last_allocated := Some (now e),
                       updated_at := Some (now e)\<rparr>) s0) u"
    proof (rule within_cap_update [OF w0])
      fix r
      assume "v = u" and row: "user_credits s0 u = Some r"
        and le: "subscription_balance r \<le> subscription_cap r"
      with gb b have "subscriptionBalance balance = subscription_balance r"
          "cap balance = subscription_cap r"
        using getBalance_fields(1,2) by blast+
      with le show "subscription_balance
                (r\<lparr>subscription_balance := subscriptionBalance balance + ?alloc,
                   lifetime_earned := lifetimeEarned balance + ?alloc,
                   last_allocated := Some (now e),
                   updated_at := Some (now e)\<rparr>)
              \<le> subscription_cap
                (r\<lparr>subscription_balance := subscriptionBalance balance + ?alloc,
                   lifetime_earned := lifetimeEarned balance + ?alloc,
                   last_allocated := Some (now e),
                   updated_at := Some (now e)\<rparr>)"
        by simp
    qed
    with gb b w0 show ?thesis
      by (simp add: allocateSubscriptionCredits_def s0_def [symmetric] Let_def
          split_beta within_cap_insert_transaction)
  qed
qed


lemma within_cap_update_frame:
  assumes "within_cap s u"
      and "\<And>r. subscription_balance (f r) = subscription_balance r"
      and "\<And>r. subscription_cap (f r) = subscription_cap r"
  shows "within_cap (update_user_credits e v f s) u"
  using assms(1) by (rule within_cap_update) (simp add: assms(2,3))

lemma allocateTopUpCredits_within_cap:
  assumes "within_cap s u"
  shows "within_cap (snd (allocateTopUpCredits e v amt packName referenceId s)) u"
proof -
  define s0 where "s0 = ensureUserCreditsRow e v s"
  have w0: "within_cap s0 u" unfolding s0_def using assms by (rule within_cap_ensure)
  obtain rb where gb: "getBalance e v s0 = (rb, s0)"
    by (metis getBalance_snd prod.collapse)
  show ?thesis
    using gb w0
    by (cases rb)
      (simp_all add: allocateTopUpCredits_def s0_def [symmetric] Let_def split_beta
         within_cap_insert_transaction within_cap_update_frame)
qed

lemma allocateRetentionBonus_within_cap:
  assumes "within_cap s u"
  shows "within_cap (snd (allocateRetentionBonus e v amt s)) u"
proof -
  define s0 where "s0 = ensureUserCreditsRow e v s"
  have w0: "within_cap s0 u" unfolding s0_def using assms by (rule within_cap_ensure)
  obtain rb where gb: "getBalance e v s0 = (rb, s0)"
    by (metis getBalance_snd prod.collapse)
  show ?thesis
    using gb w0
    by (cases rb)
      (simp_all add: allocateRetentionBonus_def s0_def [symmetric] Let_def split_beta
         within_cap_insert_transaction within_cap_update_frame)
qed

lemma allocateTrialCredits_within_cap:
  assumes "within_cap s u"
  shows "within_cap (snd (allocateTrialCredits e v amt appKey trialEndsAt referenceId s)) u"
proof -
  define s0 where "s0 = ensureUserCreditsRow e v s"
  have w0: "within_cap s0 u" unfolding s0_def using assms by (rule within_cap_ensure)
  obtain rb where gb: "getBalance e v s0 = (rb, s0)"
    by (metis getBalance_snd prod.collapse)
  show ?thesis
    using gb w0
    by (cases rb)
      (simp_all add: allocateTrialCredits_def s0_def [symmetric] Let_def split_beta
         within_cap_insert_transaction within_cap_update_frame)
qed

lemma expireTrialCredits_within_cap:
  assumes "within_cap s u"
  shows "within_cap (snd (expireTrialCredits e v appKey reason s)) u"
proof -
  define s1 where "s1 = update_user_credits e v
                          (\<lambda>r. r\<lparr>trial_balance := Some 0, trial_expires_at := None,
                                  updated_at := Some (now e)\<rparr>) s"
  have w1: "within_cap s1 u"
    unfolding s1_def using assms by (rule within_cap_update_frame) simp_all
  obtain rb where gb: "getBalance e v s1 = (rb, s1)"
    by (metis getBalance_snd prod.collapse)
  show ?thesis
    using gb w1 assms
    by (cases rb)
      (simp_all add: expireTrialCredits_def s1_def [symmetric] Let_def split_beta
         within_cap_insert_transaction)
qed

lemma log_merge_within_cap:
  "within_cap (snd (log_merge e v appKey merged s)) u = within_cap s u"
proof -
  obtain rb where gb: "getBalance e v s = (rb, s)"
    by (metis getBalance_snd prod.collapse)
  show ?thesis
    using gb
    by (cases rb) (simp_all add: log_merge_def split_beta within_cap_insert_transaction)
qed

lemma log_overflow_within_cap:
  "within_cap (snd (log_overflow e v appKey lost s)) u = within_cap s u"
proof -
  obtain rb where gb: "getBalance e v s = (rb, s)"
    by (metis getBalance_snd prod.collapse)
  show ?thesis
    using gb
    by (cases rb) (simp_all add: log_overflow_def split_beta within_cap_insert_transaction)
qed

lemma mergeTrialCredits_within_cap:
  assumes "within_cap s u"
  shows "within_cap (snd (mergeTrialCredits e v appKey s)) u"
proof -
  define d where "d = data (select_user_credits e s v)"
  define tb where "tb = stored_trial d"
  define sb where "sb = (case d of None \<Rightarrow> 0 | Some r \<Rightarrow> subscription_balance r)"
  define cp where "cp = (case d of None \<Rightarrow> 900 | Some r \<Rightarrow> subscription_cap r)"
  define merged where "merged = min tb (max 0 (cp - sb))"
  define s1 where "s1 = update_user_credits e v
                          (\<lambda>r. r\<lparr>trial_balance := Some 0, trial_expires_at := None,
                                  subscription_balance := sb + merged,
                                  updated_at := Some (now e)\<rparr>) s"
  have w1: "within_cap s1 u"
    unfolding s1_def
  proof (rule within_cap_update [OF assms])
    fix r
    assume f: "failing e User_credits = None" and "v = u" and row: "user_credits s u = Some r"
      and le: "subscription_balance r \<le> subscription_cap r"
    then have "d = Some r" by (simp add: d_def select_user_credits_def)
    then have "sb = subscription_balance r" "cp = subscription_cap r"
      by (simp_all add: sb_def cp_def)
    with le show "subscription_balance
                    (r\<lparr>trial_balance := Some 0, trial_expires_at := None,
                       subscription_balance := sb + merged, updated_at := Some (now e)\<rparr>)
                  \<le> subscription_cap
                    (r\<lparr>trial_balance := Some 0, trial_expires_at := None,
                       subscription_balance := sb + merged, updated_at := Some (now e)\<rparr>)"
      by (simp add: merged_def)
  qed
  define s2 where "s2 = snd (log_merge e v appKey merged s1)"
  define s3 where "s3 = snd (log_overflow e v appKey (tb - merged) s2)"
  have w2: "within_cap s2 u" by (simp add: s2_def log_merge_within_cap w1)
  have w3: "within_cap s3 u" by (simp add: s3_def log_overflow_within_cap w2)
  have "snd (mergeTrialCredits e v appKey s) = s
        \<or> snd (mergeTrialCredits e v appKey s) = s2
        \<or> snd (mergeTrialCredits e v appKey s) = s3"
    unfolding mergeTrialCredits_def d_def [symmetric] Let_def tb_def [symmetric]
      sb_def [symmetric] cp_def [symmetric] merged_def [symmetric] s1_def [symmetric]
    by (cases "log_merge e v appKey merged s1";
        cases "log_overflow e v appKey (tb - merged) s2")
       (auto simp add: s2_def s3_def split: sum.splits)
  with assms w2 w3 show ?thesis by auto
qed

lemma step_within_cap:
  assumes "\<not> is_recalc c" and "within_cap s u"
  shows "within_cap (step e c s) u"
  using assms
  by (cases c)
    (simp_all add: getBalance_snd deductCredits_within_cap allocateSubscriptionCredits_within_cap
       allocateTopUpCredits_within_cap allocateRetentionBonus_within_cap
       allocateTrialCredits_within_cap expireTrialCredits_within_cap mergeTrialCredits_within_cap)

lemma run_within_cap:
  assumes "list_all (\<lambda>(e, c). \<not> is_recalc c) cs" and "within_cap s u"
  shows "within_cap (run cs s) u"
  using assms
proof (induction cs arbitrary: s)
  case Nil
  then show ?case by simp
next
  case (Cons x cs)
  obtain e c where x: "x = (e, c)" by (cases x)
  from Cons.prems have "\<not> is_recalc c" and rest: "list_all (\<lambda>(e, c). \<not> is_recalc c) cs"
    by (simp_all add: x)
  then have "within_cap (step e c s) u"
    using Cons.prems(2) by (simp add: step_within_cap)
  with rest show ?case by (simp add: x Cons.IH)
qed


text \<open>
  Claim C1, as amended. In every store reached by any sequence of engine operations,
  from any store, the total \<open>getBalance\<close> reports is the sum of the three balances it
  reports, which for a user with a row are the stored subscription and top-up balances
  and the effective trial balance (0 once \<open>trial_expires_at\<close> lies before the clock).
  And \<open>subscription_balance \<le> subscription_cap\<close>, once true of a user's row, stays
  true through every sequence of engine operations that contains no
  \<open>recalculateSubscriptionCap\<close>. (\<open>recalculateSubscriptionCap\<close> writes the cap it
  computes from the subscription records without looking at the balance.)
\<close>

theorem reachable_balance_invariants:
  "(\<forall>b. fst (getBalance e u (run cs s)) = Inr b \<longrightarrow>
        total b = subscriptionBalance b + topupBalance b + trialBalance b
        \<and> (\<forall>r. user_credits (run cs s) u = Some r \<longrightarrow>
               subscriptionBalance b = subscription_balance r
               \<and> topupBalance b = topup_balance r
               \<and> trialBalance b = effective_trial (now e) r
               \<and> (\<forall>ex. trial_expires_at r = Some ex \<longrightarrow> ex < now e \<longrightarrow> trialBalance b = 0)))
   \<and> (within_cap s u \<longrightarrow> list_all (\<lambda>(e, c). \<not> is_recalc c) cs \<longrightarrow> within_cap (run cs s) u)"
proof (intro conjI allI impI)
  fix b
  assume "fst (getBalance e u (run cs s)) = Inr b"
  then show "total b = subscriptionBalance b + topupBalance b + trialBalance b"
    by (rule getBalance_total)
next
  fix b r
  assume b: "fst (getBalance e u (run cs s)) = Inr b" and r: "user_credits (run cs s) u = Some r"
  have f: "failing e User_credits = None"
  proof (cases "failing e User_credits")
    case (Some msg)
    with b show ?thesis by (simp add: getBalance_failing)
  qed simp
  from b show "subscriptionBalance b = subscription_balance r"
    and "topupBalance b = topup_balance r"
    and t: "trialBalance b = effective_trial (now e) r"
    by (auto simp add: getBalance_row [OF f r])
  fix ex
  assume "trial_expires_at r = Some ex" and "ex < now e"
  with t show "trialBalance b = 0"
    by (simp add: effective_trial_def)
next
  assume "within_cap s u" and "list_all (\<lambda>(e, c). \<not> is_recalc c) cs"
  then show "within_cap (run cs s) u"
    by (simp add: run_within_cap)
qed

theorem reachable_balance_invariants_witness:
  "within_cap empty_db ''u1''
   \<and> list_all (\<lambda>(e, c). \<not> is_recalc c) ex_plain_run
   \<and> within_cap (run ex_plain_run empty_db) ''u1''
   \<and> user_credits (run ex_plain_run empty_db) ''u1'' =
       Some \<lparr>subscription_balance = 900, topup_balance = 100, trial_balance = Some 0,
             trial_expires_at = None, subscription_cap = 900, lifetime_earned = 1050,
             lifetime_spent = 12, last_allocated = Some 1000, updated_at = Some 1000\<rparr>
   \<and> fst (getBalance ex_env ''u1'' (run ex_plain_run empty_db)) =
       Inr \<lparr>subscriptionBalance = 900, topupBalance = 100, trialBalance = 0, total = 1000,
             cap = 900, lifetimeEarned = 1050, lifetimeSpent = 12\<rparr>"
proof -
  let ?b = "\<lparr>subscriptionBalance = 900, topupBalance = 100, trialBalance = 0, total = 1000,
             cap = 900, lifetimeEarned = 1050, lifetimeSpent = 12\<rparr>"
  have h1: "within_cap empty_db ''u1''"
    by (simp add: within_cap_def empty_db_def)
  have h2: "list_all (\<lambda>(e, c). \<not> is_recalc c) ex_plain_run"
    by (simp add: ex_plain_run_def)
  have h3: "fst (getBalance ex_env ''u1'' (run ex_plain_run empty_db)) = Inr ?b"
    by code_simp
  have h4: "user_credits (run ex_plain_run empty_db) ''u1'' =
       Some \<lparr>subscription_balance = 900, topup_balance = 100, trial_balance = Some 0,
             trial_expires_at = None, subscription_cap = 900, lifetime_earned = 1050,
             lifetime_spent = 12, last_allocated = Some 1000, updated_at = Some 1000\<rparr>"
    by code_simp
  from reachable_balance_invariants [of ex_env "''u1''" ex_plain_run empty_db] h1 h2
  have "within_cap (run ex_plain_run empty_db) ''u1''" by blast
  with h1 h2 h3 h4 show ?thesis by simp
qed

text \<open>
  The claim as stated fails. A user pays for two apps: the first invoice creates the row
  and allocates 300, the cap is recalculated to 900 + 1500, two more invoices bring the
  subscription pool to 1100. The second subscription is then canceled and the cap
  recalculated: \<open>recalculateSubscriptionCap\<close> writes 900, below the balance 1100.
\<close>

theorem recalculate_below_balance_counterexample:
  "map_option subscription_balance (user_credits (run ex_cancel_run empty_db) ''u1'') = Some 1100
   \<and> map_option subscription_cap (user_credits (run ex_cancel_run empty_db) ''u1'') = Some 900
   \<and> \<not> within_cap (run ex_cancel_run empty_db) ''u1''"
  by code_simp

section \<open>Properties of the webhook handler\<close>

lemma isEventProcessed_iff:
  assumes "failing e Stripe_events = None"
  shows "isEventProcessed e s eventId \<longleftrightarrow> stripe_events s eventId \<noteq> None"
  using assms
  by (simp add: isEventProcessed_def select_stripe_event_def split: option.splits)

lemma markEventProcessed_marks:
  assumes "failing e Stripe_events = None"
  shows "stripe_events (markEventProcessed e eventId eventType pl s) eventId \<noteq> None"
  using assms by (simp add: markEventProcessed_def split: option.splits)

lemma redeliver_duplicate:
  assumes "failing e Stripe_events = None"
      and "httpMethod event = ''POST''"
      and "stripe_signature event = Some signature" and "signature \<noteq> []"
      and "body event = Some b" and "b \<noteq> []"
      and "constructWebhookEvent b signature = Inr ev"
      and "stripe_events s (ev_id ev) \<noteq> None"
  shows "redeliver n e constructWebhookEvent hs event s = s"
proof -
  have "handler e constructWebhookEvent hs event s = (JsonResponse 200 (Received True), s)"
    using assms by (simp add: handler_def isEventProcessed_iff)
  then show ?thesis by (induction n) simp_all
qed


text \<open>
  What the handler does while \<open>stripe_events\<close> can be read. Take a POST request whose
  signature verifies to the event \<open>ev\<close>. If a row for the event id exists, the answer is
  200 \<open>{received, duplicate}\<close> and the store is untouched, whatever the handlers are (none
  is run). If none exists, the event is dispatched: when the handler throws, the answer
  is 500 and the store is the one the handler left, with no mark added; when it returns,
  the answer is 200 \<open>{received}\<close> and the store is the handler's with the event marked,
  by one insert made after the handler has finished. From then on every further delivery
  of the same request is answered as a duplicate and changes nothing, so any number of
  deliveries in a row leave the store of the first.
\<close>

lemma handler_marks_after_success:
  assumes "failing e Stripe_events = None"
      and "httpMethod event = ''POST''"
      and "stripe_signature event = Some signature" and "signature \<noteq> []"
      and "body event = Some b" and "b \<noteq> []"
      and "constructWebhookEvent b signature = Inr ev"
  shows "(stripe_events s (ev_id ev) \<noteq> None \<longrightarrow>
            (\<forall>hs'. handler e constructWebhookEvent hs' event s = (JsonResponse 200 (Received True), s)))
         \<and> (stripe_events s (ev_id ev) = None \<longrightarrow>
              (\<forall>err s1. dispatch hs ev s = (Inl err, s1) \<longrightarrow>
                  handler e constructWebhookEvent hs event s =
                    (JsonResponse 500 (Error_body ''Webhook handler error''), s1))
              \<and> (\<forall>s1. dispatch hs ev s = (Inr (), s1) \<longrightarrow>
                  handler e constructWebhookEvent hs event s =
                    (JsonResponse 200 (Received False),
                     markEventProcessed e (ev_id ev) (ev_type ev) None s1)
                  \<and> (stripe_events s1 (ev_id ev) = None \<longrightarrow>
                       markEventProcessed e (ev_id ev) (ev_type ev) None s1 =
                         s1\<lparr>stripe_events := (stripe_events s1)(ev_id ev \<mapsto>
                               \<lparr>event_type = ev_type ev, payload = None\<rparr>)\<rparr>)
                  \<and> (\<forall>hs'. handler e constructWebhookEvent hs' event
                               (markEventProcessed e (ev_id ev) (ev_type ev) None s1) =
                             (JsonResponse 200 (Received True),
                              markEventProcessed e (ev_id ev) (ev_type ev) None s1))
                  \<and> (\<forall>n. redeliver (Suc n) e constructWebhookEvent hs event s =
                            markEventProcessed e (ev_id ev) (ev_type ev) None s1)))"
proof (intro conjI allI impI)
  fix hs'
  assume "stripe_events s (ev_id ev) \<noteq> None"
  with assms show "handler e constructWebhookEvent hs' event s = (JsonResponse 200 (Received True), s)"
    by (simp add: handler_def isEventProcessed_iff)
next
  fix err s1
  assume "stripe_events s (ev_id ev) = None" and "dispatch hs ev s = (Inl err, s1)"
  with assms show "handler e constructWebhookEvent hs event s =
                     (JsonResponse 500 (Error_body ''Webhook handler error''), s1)"
    by (simp add: handler_def isEventProcessed_iff)
next
  fix s1
  assume new: "stripe_events s (ev_id ev) = None" and ok: "dispatch hs ev s = (Inr (), s1)"
  let ?s2 = "markEventProcessed e (ev_id ev) (ev_type ev) None s1"
  from new ok assms show first: "handler e constructWebhookEvent hs event s =
                                   (JsonResponse 200 (Received False), ?s2)"
    by (simp add: handler_def isEventProcessed_iff)
  have marked: "stripe_events ?s2 (ev_id ev) \<noteq> None"
    using assms(1) by (rule markEventProcessed_marks)
  {
    assume "stripe_events s1 (ev_id ev) = None"
    with assms(1) show "?s2 = s1\<lparr>stripe_events := (stripe_events s1)(ev_id ev \<mapsto>
                                   \<lparr>event_type = ev_type ev, payload = None\<rparr>)\<rparr>"
      by (simp add: markEventProcessed_def)
  }
  {
    fix hs'
    from assms marked
    show "handler e constructWebhookEvent hs' event ?s2 = (JsonResponse 200 (Received True), ?s2)"
      by (simp add: handler_def isEventProcessed_iff)
  }
  {
    fix n
    have "redeliver n e constructWebhookEvent hs event ?s2 = ?s2"
      using assms marked by (rule redeliver_duplicate)
    then show "redeliver (Suc n) e constructWebhookEvent hs event s = ?s2"
      by (simp add: first)
  }
qed


lemma handler_marks_after_success_example:
  "handler ex_env ex_construct ex_handlers (ex_request ''invoice.payment_succeeded'') empty_db =
     (JsonResponse 200 (Received False),
      \<lparr>user_credits = [''u1'' \<mapsto>
           \<lparr>subscription_balance = 300, topup_balance = 0, trial_balance = Some 0,
            trial_expires_at = None, subscription_cap = 900, lifetime_earned = 300,
            lifetime_spent = 0, last_allocated = Some 1000, updated_at = Some 1000\<rparr>],
       credit_transactions =
         [\<lparr>txn_id = 0, user_id = ''u1'', amount = 300, balance_after = 300, pool = Subscription,
           txn_type = Subscription_allocation, description = ''Monthly allocation (keywords)'',
           app_key = Some ''keywords'', reference_id = Some ''in_1''\<rparr>],
       stripe_events = [''evt_1'' \<mapsto> \<lparr>event_type = ''invoice.payment_succeeded'', payload = None\<rparr>]\<rparr>)
   \<and> redeliver 3 ex_env ex_construct ex_handlers (ex_request ''invoice.payment_succeeded'') empty_db =
       snd (handler ex_env ex_construct ex_handlers (ex_request ''invoice.payment_succeeded'') empty_db)
   \<and> handler ex_env ex_construct ex_handlers (ex_request ''invoice.payment_succeeded'')
         (snd (handler ex_env ex_construct ex_handlers (ex_request ''invoice.payment_succeeded'') empty_db)) =
       (JsonResponse 200 (Received True),
        snd (handler ex_env ex_construct ex_handlers (ex_request ''invoice.payment_succeeded'') empty_db))
   \<and> handler ex_env ex_construct ex_handlers (ex_request ''checkout.session.completed'') empty_db =
       (JsonResponse 500 (Error_body ''Webhook handler error''), empty_db)"
proof -
  let ?paid = "ex_request ''invoice.payment_succeeded''"
  let ?ev = "\<lparr>ev_id = ''evt_1'', ev_type = ''invoice.payment_succeeded'', ev_object = ''in_1''\<rparr>"
  let ?checkout = "ex_request ''checkout.session.completed''"
  let ?ev' = "\<lparr>ev_id = ''evt_1'', ev_type = ''checkout.session.completed'', ev_object = ''in_1''\<rparr>"
  let ?s1 = "\<lparr>user_credits = [''u1'' \<mapsto>
           \<lparr>subscription_balance = 300, topup_balance = 0, trial_balance = Some 0,
            trial_expires_at = None, subscription_cap = 900, lifetime_earned = 300,
            lifetime_spent = 0, last_allocated = Some 1000, updated_at = Some 1000\<rparr>],
       credit_transactions =
         [\<lparr>txn_id = 0, user_id = ''u1'', amount = 300, balance_after = 300, pool = Subscription,
           txn_type = Subscription_allocation, description = ''Monthly allocation (keywords)'',
           app_key = Some ''keywords'', reference_id = Some ''in_1''\<rparr>],
       stripe_events = Map.empty\<rparr>"
  have h1: "failing ex_env Stripe_events = None" by (simp add: ex_env_def)
  have h2: "httpMethod ?paid = ''POST''" "httpMethod ?checkout = ''POST''"
    by (simp_all add: ex_request_def)
  have h3: "stripe_signature ?paid = Some ''good''" "stripe_signature ?checkout = Some ''good''"
    by (simp_all add: ex_request_def)
  have h4: "''good'' \<noteq> []" by simp
  have h5: "body ?paid = Some ''invoice.payment_succeeded''"
    "body ?checkout = Some ''checkout.session.completed''"
    by (simp_all add: ex_request_def)
  have h6: "''invoice.payment_succeeded'' \<noteq> []" "''checkout.session.completed'' \<noteq> []"
    by simp_all
  have h7: "ex_construct ''invoice.payment_succeeded'' ''good'' = Inr ?ev"
    "ex_construct ''checkout.session.completed'' ''good'' = Inr ?ev'"
    by (simp_all add: ex_construct_def)
  have new: "stripe_events empty_db (ev_id ?ev) = None" "stripe_events empty_db (ev_id ?ev') = None"
    by (simp_all add: empty_db_def)
  have f: "failing ex_env User_credits = None" "failing ex_env Credit_transactions = None"
    "now ex_env = 1000"
    by (simp_all add: ex_env_def)
  have alloc: "allocateSubscriptionCredits ex_env ''u1'' 300 ''keywords'' (Some ''in_1'') empty_db
                 = (Inr \<lparr>alloc_newBalance = 300, allocated = 300\<rparr>, ?s1)"
    by (simp add: allocateSubscriptionCredits_def ensureUserCreditsRow_def select_user_credits_def
        insert_user_credits_def getBalance_def f empty_db_def default_row_def effective_trial_def
        Let_def update_user_credits_def insert_transaction_def)
  have d: "dispatch ex_handlers ?ev empty_db = (Inr (), ?s1)"
    by (simp add: dispatch_def ex_handlers_def alloc)
  have d': "dispatch ex_handlers ?ev' empty_db
              = (Inl (HttpError 500 ''provider unreachable'' No_details), empty_db)"
    by (simp add: dispatch_def ex_handlers_def)
  have m: "markEventProcessed ex_env ''evt_1'' ''invoice.payment_succeeded'' None ?s1 =
             ?s1\<lparr>stripe_events := [''evt_1'' \<mapsto> \<lparr>event_type = ''invoice.payment_succeeded'', payload = None\<rparr>]\<rparr>"
    by (simp add: markEventProcessed_def h1)
  note paid = handler_marks_after_success
    [of ex_env ?paid "''good''" "''invoice.payment_succeeded''" ex_construct ?ev empty_db ex_handlers,
     OF h1 h2(1) h3(1) h4 h5(1) h6(1) h7(1)]
  note checkout = handler_marks_after_success
    [of ex_env ?checkout "''good''" "''checkout.session.completed''" ex_construct ?ev' empty_db ex_handlers,
     OF h1 h2(2) h3(2) h4 h5(2) h6(2) h7(2)]
  from paid new(1) d
  have a: "handler ex_env ex_construct ex_handlers ?paid empty_db =
             (JsonResponse 200 (Received False),
              markEventProcessed ex_env (ev_id ?ev) (ev_type ?ev) None ?s1)"
    and b: "handler ex_env ex_construct ex_handlers ?paid
              (markEventProcessed ex_env (ev_id ?ev) (ev_type ?ev) None ?s1) =
             (JsonResponse 200 (Received True),
              markEventProcessed ex_env (ev_id ?ev) (ev_type ?ev) None ?s1)"
    and c: "redeliver (Suc 2) ex_env ex_construct ex_handlers ?paid empty_db =
              markEventProcessed ex_env (ev_id ?ev) (ev_type ?ev) None ?s1"
    by blast+
  from checkout new(2) d'
  have e: "handler ex_env ex_construct ex_handlers ?checkout empty_db =
             (JsonResponse 500 (Error_body ''Webhook handler error''), empty_db)"
    by blast
  have three: "(3::nat) = Suc 2" by simp
  show ?thesis
    unfolding three using a b c e by (simp add: m)
qed

text \<open>
  What it does when that read fails: \<open>isEventProcessed\<close> drops the \<^verbatim>\<open>error\<close> of its
  query and answers \<^verbatim>\<open>!!data\<close>, so the event counts as new, whatever the table holds,
  and is dispatched; the mark written afterwards is lost with the table.
\<close>

lemma handler_unreadable_events:
  assumes "failing e Stripe_events = Some msg"
      and "httpMethod event = ''POST''"
      and "stripe_signature event = Some signature" and "signature \<noteq> []"
      and "body event = Some b" and "b \<noteq> []"
      and "constructWebhookEvent b signature = Inr ev"
  shows "handler e constructWebhookEvent hs event s =
           (case dispatch hs ev s of
              (Inl err, s1) \<Rightarrow> (JsonResponse 500 (Error_body ''Webhook handler error''), s1)
            | (Inr u, s1) \<Rightarrow> (JsonResponse 200 (Received False), s1))"
  using assms
  by (simp add: handler_def isEventProcessed_def select_stripe_event_def markEventProcessed_def
      split: prod.splits sum.splits)

text \<open>
  Claim C6. An event whose id already has a record in \<open>stripe_events\<close> is to be answered
  as a duplicate without any handler being run, so that delivering the same event again
  applies its ledger effects at most once. The code does not keep this when the read of
  \<open>stripe_events\<close> fails. A paid-invoice event is delivered once: 300 credits are
  allocated and the event is recorded. It is delivered again while the read fails: the
  answer is 200 \<open>{received}\<close>, not a duplicate; the handler has run a second time; the
  subscription balance is 600 and the log holds two allocation rows for the one invoice.
\<close>

theorem handler_redispatches_recorded_event:
  "stripe_events ex_paid_store ''evt_1'' =
     Some \<lparr>event_type = ''invoice.payment_succeeded'', payload = None\<rparr>
   \<and> map_option subscription_balance (user_credits ex_paid_store ''u1'') = Some 300
   \<and> length (credit_transactions ex_paid_store) = 1
   \<and> fst (handler ex_env_events_down ex_construct ex_handlers
              (ex_request ''invoice.payment_succeeded'') ex_paid_store) =
       JsonResponse 200 (Received False)
   \<and> map_option subscription_balance
        (user_credits (snd (handler ex_env_events_down ex_construct ex_handlers
                              (ex_request ''invoice.payment_succeeded'') ex_paid_store)) ''u1'') =
       Some 600
   \<and> map (\<lambda>t. (txn_type t, amount t, reference_id t))
        (credit_transactions (snd (handler ex_env_events_down ex_construct ex_handlers
                                     (ex_request ''invoice.payment_succeeded'') ex_paid_store))) =
       [(Subscription_allocation, 300, Some ''in_1''), (Subscription_allocation, 300, Some ''in_1'')]"
  by code_simp

end
